theory Spec2Isabelle
  imports Complex_Main "HOL-Library.Sublist" "HOL-Library.Word"
begin

section \<open>Strings of the script writer\<close>

text \<open>
  The application (\<^verbatim>\<open>src/index.tsx\<close>) is one React component, \<^verbatim>\<open>App\<close>, whose handlers
  build a prompt, validate the provider's reply and render the generated sections as text,
  speech and PDF pages. A JavaScript string is a sequence of 16-bit code units and is
  modelled as one: a list of words of 16 bits. \<open>S\<close> gives the string of an ASCII literal.
\<close>

type_synonym code_unit = "16 word"

type_synonym jsString = "code_unit list"

abbreviation S :: "string \<Rightarrow> jsString" where
  "S s \<equiv> map of_char s"

abbreviation nl :: code_unit where
  "nl \<equiv> 0x0A"

abbreviation dquote :: code_unit where
  "dquote \<equiv> 0x22"

abbreviation blank :: code_unit where
  "blank \<equiv> 0x20"

text \<open>
  The white space that \<^verbatim>\<open>String.prototype.trim\<close> and \<^verbatim>\<open>parseInt\<close> skip, which is the
  \<^verbatim>\<open>WhiteSpace\<close> and the \<^verbatim>\<open>LineTerminator\<close> of the language: tab, line feed, vertical tab,
  form feed, carriage return, space, no-break space, the other space separators of Unicode
  (U+1680, U+2000 to U+200A, U+202F, U+205F, U+3000), the line and the paragraph separator
  (U+2028, U+2029) and the byte order mark (U+FEFF).
\<close>

definition isWhiteSpace :: "code_unit \<Rightarrow> bool" where
  "isWhiteSpace c =
     (c \<in> set [0x09, 0x0A, 0x0B, 0x0C, 0x0D, 0x20, 0xA0, 0x1680,
               0x2000, 0x2001, 0x2002, 0x2003, 0x2004, 0x2005, 0x2006, 0x2007, 0x2008,
               0x2009, 0x200A, 0x2028, 0x2029, 0x202F, 0x205F, 0x3000, 0xFEFF])"

definition trim :: "jsString \<Rightarrow> jsString" where
  "trim s = rev (dropWhile isWhiteSpace (rev (dropWhile isWhiteSpace s)))"

text \<open>\<^verbatim>\<open>Array.prototype.join\<close> on an array of strings.\<close>

fun join :: "jsString \<Rightarrow> jsString list \<Rightarrow> jsString" where
  "join sep [] = []"
| "join sep [x] = x"
| "join sep (x # y # ys) = x @ sep @ join sep (y # ys)"

subsection \<open>formatTitle\<close>

text \<open>
  \<^verbatim>\<open>title.replace(/([A-Z])/g, ' $1').replace(/^./, (str) => str.toUpperCase())\<close>:
  the character class of the first replacement is \<^verbatim>\<open>[A-Z]\<close>; the second replacement matches
  the first code unit unless it is a line terminator (\<^verbatim>\<open>.\<close> does not match one).
\<close>

definition isCapital :: "code_unit \<Rightarrow> bool" where
  "isCapital c = (0x41 \<le> c \<and> c \<le> 0x5A)"

definition isLineTerminator :: "code_unit \<Rightarrow> bool" where
  "isLineTerminator c = (c = 0x0A \<or> c = 0x0D \<or> c = 0x2028 \<or> c = 0x2029)"

text \<open>
  \<^verbatim>\<open>String.prototype.toUpperCase\<close> on a string of one code unit. Up to U+00FF the capitals
  are written out: \<open>a\<close> to \<open>z\<close>; the micro sign, whose capital is U+039C; the sharp s, whose
  capital is \<open>SS\<close>; the letters U+00E0 to U+00FE, but not the division sign U+00F7; and
  the y with diaeresis, whose capital is U+0178. Every other code unit up to U+00FF is its
  own capital. The capitals of the code units above U+00FF are in the Unicode tables of the
  platform, which are the parameter \<open>upperOf\<close>.
\<close>

definition toUpperCase :: "(code_unit \<Rightarrow> jsString) \<Rightarrow> code_unit \<Rightarrow> jsString" where
  "toUpperCase upperOf c =
     (if 0x61 \<le> c \<and> c \<le> 0x7A then [c - 0x20]
      else if c = 0xB5 then [0x039C]
      else if c = 0xDF then [0x53, 0x53]
      else if 0xE0 \<le> c \<and> c \<le> 0xFE \<and> c \<noteq> 0xF7 then [c - 0x20]
      else if c = 0xFF then [0x0178]
      else if c \<le> 0xFF then [c]
      else upperOf c)"

fun spaceBeforeCapitals :: "jsString \<Rightarrow> jsString" where
  "spaceBeforeCapitals [] = []"
| "spaceBeforeCapitals (c # cs) =
     (if isCapital c then blank # c # spaceBeforeCapitals cs else c # spaceBeforeCapitals cs)"

fun upperFirst :: "(code_unit \<Rightarrow> jsString) \<Rightarrow> jsString \<Rightarrow> jsString" where
  "upperFirst upperOf [] = []"
| "upperFirst upperOf (c # cs) =
     (if isLineTerminator c then c # cs else toUpperCase upperOf c @ cs)"

definition formatTitle :: "(code_unit \<Rightarrow> jsString) \<Rightarrow> jsString \<Rightarrow> jsString" where
  "formatTitle upperOf title = upperFirst upperOf (spaceBeforeCapitals title)"

text \<open>
  The title derivation in the words of the specification: a space immediately before every
  internal capital letter (one that is not the first character), then the first character
  capitalised.
\<close>

fun titleDerivation_spec :: "(code_unit \<Rightarrow> jsString) \<Rightarrow> jsString \<Rightarrow> jsString" where
  "titleDerivation_spec upperOf [] = []"
| "titleDerivation_spec upperOf (c # cs) = upperFirst upperOf (c # spaceBeforeCapitals cs)"

section \<open>Data model\<close>

text \<open>
  \<^verbatim>\<open>type VisualIdeas = { shotSuggestions: string[]; bRoll: string[] }\<close> and
  \<^verbatim>\<open>type GeneratedSectionValue = string | VisualIdeas\<close>. The generated document is a
  \<^verbatim>\<open>Record<string, GeneratedSectionValue>\<close>, modelled as the list of its entries in the order
  \<^verbatim>\<open>Object.entries\<close> gives them; the type asks for no particular key.
\<close>

record VisualIdeas =
  shotSuggestions :: "jsString list"
  bRoll :: "jsString list"

datatype GeneratedSectionValue = Text jsString | Visual VisualIdeas

type_synonym sections = "(jsString \<times> GeneratedSectionValue) list"

record voice =
  voiceURI :: jsString
  voiceName :: jsString
  lang :: jsString

text \<open>A \<^verbatim>\<open>SpeechSynthesisUtterance\<close>: its text and the voice bound to it, if any.\<close>

record utterance =
  spoken :: jsString
  boundVoice :: "voice option"

text \<open>
  The component's state variables, followed by the two pieces of browser state its handlers
  write: the clipboard and the utterance queue of \<^verbatim>\<open>window.speechSynthesis\<close>
  (\<^verbatim>\<open>speak\<close> appends to it, \<^verbatim>\<open>cancel\<close> empties it).
\<close>

record state =
  scriptContent :: jsString
  wordCount :: jsString
  advancedInstructions :: jsString
  selectedPlatforms :: "jsString list"
  generatedSections :: "sections option"
  isLoading :: bool
  error :: "jsString option"
  copiedKey :: "jsString option"
  voices :: "voice list"
  selectedVoiceURI :: "jsString option"
  speakingKey :: "jsString option"
  clipboard :: "jsString option"
  speechQueue :: "utterance list"

section \<open>Generation\<close>

subsection \<open>parseInt\<close>

text \<open>
  \<^verbatim>\<open>parseInt(string)\<close> with no radix: leading white space is skipped, then an optional sign,
  then an optional \<^verbatim>\<open>0x\<close> or \<^verbatim>\<open>0X\<close> (radix 16, else 10), then the longest run of digits of
  the radix; no digit gives \<^verbatim>\<open>NaN\<close>, here \<^const>\<open>None\<close>. The result is the exact integer:
  the source only compares it with 0, which the rounding to a double does not change.
  The digits are \<open>0\<close> to \<open>9\<close>, and \<open>a\<close> to \<open>z\<close> and \<open>A\<close> to \<open>Z\<close> from 10 on.
\<close>

definition digitValue :: "code_unit \<Rightarrow> nat option" where
  "digitValue c =
     (if 0x30 \<le> c \<and> c \<le> 0x39 then Some (unat c - 0x30)
      else if 0x61 \<le> c \<and> c \<le> 0x7A then Some (unat c - 0x61 + 10)
      else if 0x41 \<le> c \<and> c \<le> 0x5A then Some (unat c - 0x41 + 10)
      else None)"

definition isRadixDigit :: "nat \<Rightarrow> code_unit \<Rightarrow> bool" where
  "isRadixDigit r c = (case digitValue c of Some d \<Rightarrow> d < r | None \<Rightarrow> False)"

definition parseInt :: "jsString \<Rightarrow> int option" where
  "parseInt inputString =
     (let s = dropWhile isWhiteSpace inputString;
          negative = (s \<noteq> [] \<and> hd s = 0x2D);
          s1 = (if s \<noteq> [] \<and> (hd s = 0x2B \<or> hd s = 0x2D) then tl s else s);
          hex = (take 2 s1 = S ''0x'' \<or> take 2 s1 = S ''0X'');
          r = (if hex then 16 else 10);
          s2 = (if hex then drop 2 s1 else s1);
          z = takeWhile (isRadixDigit r) s2
      in if z = [] then None
         else Some ((if negative then - 1 else 1) *
                int (foldl (\<lambda>n c. case digitValue c of Some d \<Rightarrow> n * r + d | None \<Rightarrow> n) 0 z)))"

subsection \<open>The request\<close>

text \<open>The condition \<^verbatim>\<open>wordCount && parseInt(wordCount) > 0\<close>.\<close>

definition wordCountGiven :: "jsString \<Rightarrow> bool" where
  "wordCountGiven w = (w \<noteq> [] \<and> (case parseInt w of Some n \<Rightarrow> n > 0 | None \<Rightarrow> False))"

definition wordCountDirective :: "jsString \<Rightarrow> jsString" where
  "wordCountDirective w =
     [nl, nl] @ S ''The main content should be approximately '' @ w @ S '' words.''"

definition prompt :: "state \<Rightarrow> jsString" where
  "prompt st =
     (let p0 = S ''Based on the following content idea, generate a script for a social media post tailored for the following platforms: ''
             @ join (S '', '') (selectedPlatforms st)
             @ S ''. Include a hook, introduction, main content, a call to action, detailed visual ideas (with specific shot suggestions and B-roll ideas), and relevant hashtags.''
             @ [nl, nl] @ S ''Idea: '' @ [dquote] @ scriptContent st @ [dquote];
          p1 = (if wordCountGiven (wordCount st) then p0 @ wordCountDirective (wordCount st) else p0)
      in if trim (advancedInstructions st) \<noteq> []
         then p1 @ [nl, nl] @ S ''Advanced Instructions: '' @ trim (advancedInstructions st)
         else p1)"

definition systemInstruction :: jsString where
  "systemInstruction =
     S ''You are a helpful social media script generator. Your primary goal is to create engaging and appropriate content. You must adhere to the following safety policies strictly:''
     @ [nl] @ S ''1.  **Adult Content:** If the user's content idea or instructions request sexually explicit, violent, or otherwise inappropriate adult content, you MUST refuse the request. To do this, return a valid JSON object where the 'hook' field contains ONLY the exact string 'CONTENT_VIOLATION' and all other fields are empty. Do not explain why.''
     @ [nl] @ S ''2.  **Visuals Policy:** In the 'visualIdeas' section, you must not suggest or describe any visuals that include images of women. You can describe scenes, objects, text, or men, but explicitly avoid mentioning women in both 'shotSuggestions' and 'bRoll'.''"

text \<open>
  The argument of \<^verbatim>\<open>ai.models.generateContent\<close>. Of the response schema the record keeps the
  two \<^verbatim>\<open>required\<close> lists, of the object and of its \<^verbatim>\<open>visualIdeas\<close> property.
\<close>

record request =
  model :: jsString
  contents :: jsString
  configSystemInstruction :: jsString
  responseMimeType :: jsString
  required :: "jsString list"
  visualIdeasRequired :: "jsString list"

definition request :: "state \<Rightarrow> request" where
  "request st =
     \<lparr> model = S ''gemini-2.5-flash'',
       contents = prompt st,
       configSystemInstruction = systemInstruction,
       responseMimeType = S ''application/json'',
       required = [S ''hook'', S ''introduction'', S ''mainContent'', S ''callToAction'', S ''visualIdeas'', S ''hashtags''],
       visualIdeasRequired = [S ''shotSuggestions'', S ''bRoll''] \<rparr>"

subsection \<open>handleGenerate\<close>

text \<open>
  The provider and \<^verbatim>\<open>JSON.parse\<close> are outside the repository and are parameters.
  The provider call either rejects (\<^verbatim>\<open>Rejects (Some m)\<close>: an \<^verbatim>\<open>Error\<close> with message \<open>m\<close>;
  \<^verbatim>\<open>Rejects None\<close>: any other thrown value) or resolves with a response whose
  \<^verbatim>\<open>response?.text\<close> is the given string (\<^const>\<open>None\<close>: undefined).
  \<^verbatim>\<open>JSON.parse\<close> throws a \<^verbatim>\<open>SyntaxError\<close>, or returns a value, taken at the type the state
  variable \<^verbatim>\<open>generatedSections\<close> declares: \<^verbatim>\<open>null\<close> or a record of sections.
\<close>

datatype provider_outcome = Rejects "jsString option" | Resolves "jsString option"

datatype parsed = SyntaxError | JsonNull | JsonObject sections

text \<open>
  \<^verbatim>\<open>jsonResponse.hook === 'CONTENT_VIOLATION'\<close>: the property lookup on a record of sections.
\<close>

definition hookIsViolation :: "sections \<Rightarrow> bool" where
  "hookIsViolation obj = (map_of obj (S ''hook'') = Some (Text (S ''CONTENT_VIOLATION'')))"

text \<open>
  The inner \<^verbatim>\<open>try\<close> block, from \<^verbatim>\<open>JSON.parse(response.text)\<close> on. Reading \<^verbatim>\<open>.hook\<close> of
  \<^verbatim>\<open>null\<close> throws a \<^verbatim>\<open>TypeError\<close>, which the same \<^verbatim>\<open>catch\<close> handles as the
  \<^verbatim>\<open>SyntaxError\<close> of the parser.
\<close>

definition acceptReply :: "(jsString \<Rightarrow> parsed) \<Rightarrow> jsString \<Rightarrow> state \<Rightarrow> state" where
  "acceptReply jsonParse responseText st =
     (case jsonParse responseText of
        SyntaxError \<Rightarrow>
          st\<lparr>error := Some (S ''The generated script was not in the expected format. Please try again.'')\<rparr>
      | JsonNull \<Rightarrow>
          st\<lparr>error := Some (S ''The generated script was not in the expected format. Please try again.'')\<rparr>
      | JsonObject jsonResponse \<Rightarrow>
          if hookIsViolation jsonResponse
          then st\<lparr>error := Some (S ''Sorry, we are not able to provide this type of information.''),
                  generatedSections := None\<rparr>
          else st\<lparr>generatedSections := Some jsonResponse\<rparr>)"

text \<open>
  \<^verbatim>\<open>handleGenerate\<close> returns the state once the handler has finished, and the requests it has
  sent to the provider, in order. The \<^verbatim>\<open>finally\<close> block runs on every path through the outer
  \<^verbatim>\<open>try\<close>, also on the early returns inside it.
\<close>

definition handleGenerate ::
    "(request \<Rightarrow> provider_outcome) \<Rightarrow> (jsString \<Rightarrow> parsed) \<Rightarrow> state \<Rightarrow> state \<times> request list" where
  "handleGenerate generateContent jsonParse st =
     (if trim (scriptContent st) = [] then
        (st\<lparr>error := Some (S ''Please enter a content idea first.'')\<rparr>, [])
      else if selectedPlatforms st = [] then
        (st\<lparr>error := Some (S ''Please select at least one target platform.'')\<rparr>, [])
      else
        let st1 = st\<lparr>isLoading := True, error := None, generatedSections := None\<rparr>;
            st2 = (case generateContent (request st) of
                     Rejects e \<Rightarrow>
                       st1\<lparr>error := Some (case e of Some message \<Rightarrow> message
                                                | None \<Rightarrow> (S ''An unknown error occurred.''))\<rparr>
                   | Resolves responseText \<Rightarrow>
                       (case responseText of
                          None \<Rightarrow>
                            st1\<lparr>error := Some (S ''The model did not return a script. This might be due to a content safety filter. Please try modifying your request.'')\<rparr>
                        | Some t \<Rightarrow>
                            if t = [] then
                              st1\<lparr>error := Some (S ''The model did not return a script. This might be due to a content safety filter. Please try modifying your request.'')\<rparr>
                            else acceptReply jsonParse t st1))
        in (st2\<lparr>isLoading := False\<rparr>, [request st]))"

section \<open>Rendering\<close>

subsection \<open>getFullScriptText\<close>

text \<open>
  One entry of the \<^verbatim>\<open>map\<close> in \<^verbatim>\<open>getFullScriptText\<close>. The last branch of the source
  (\<^verbatim>\<open>return ''\<close>, for a value that is neither a string nor an object) has no value of type
  \<^typ>\<open>GeneratedSectionValue\<close>. The parameter \<open>upperOf\<close> is the table of capitals that
  \<^const>\<open>formatTitle\<close> takes.
\<close>

fun sectionText ::
    "(code_unit \<Rightarrow> jsString) \<Rightarrow> jsString \<times> GeneratedSectionValue \<Rightarrow> jsString" where
  "sectionText upperOf (key, Text v) = formatTitle upperOf key @ [nl] @ v"
| "sectionText upperOf (key, Visual visualIdeas) =
     (let shots = join [nl] (map (\<lambda>s. S ''- '' @ s) (shotSuggestions visualIdeas));
          bRolls = join [nl] (map (\<lambda>b. S ''- '' @ b) (bRoll visualIdeas))
      in formatTitle upperOf key @ [nl] @ S ''Shot Suggestions:'' @ [nl] @ shots @ [nl, nl]
         @ S ''B-Roll:'' @ [nl] @ bRolls)"

text \<open>The parameter \<^verbatim>\<open>forCopy\<close> is not read by the source.\<close>

definition getFullScriptText :: "(code_unit \<Rightarrow> jsString) \<Rightarrow> bool \<Rightarrow> state \<Rightarrow> jsString" where
  "getFullScriptText upperOf forCopy st =
     (case generatedSections st of
        None \<Rightarrow> []
      | Some secs \<Rightarrow> join [nl, nl] (map (sectionText upperOf) secs))"

subsection \<open>Copying one section\<close>

text \<open>\<^verbatim>\<open>handleCopy\<close>; the timer that clears \<^verbatim>\<open>copiedKey\<close> two seconds later is \<open>copiedTimeout\<close>.\<close>

definition handleCopy :: "jsString \<Rightarrow> jsString \<Rightarrow> state \<Rightarrow> state" where
  "handleCopy key textToCopy st = st\<lparr>clipboard := Some textToCopy, copiedKey := Some key\<rparr>"

definition copiedTimeout :: "state \<Rightarrow> state" where
  "copiedTimeout st = st\<lparr>copiedKey := None\<rparr>"

text \<open>The \<^verbatim>\<open>onClick\<close> of a section card's copy button.\<close>

fun copyClick :: "jsString \<times> GeneratedSectionValue \<Rightarrow> state \<Rightarrow> state" where
  "copyClick (key, Text v) st = handleCopy key v st"
| "copyClick (key, Visual v) st =
     handleCopy key
       (S ''Shot Suggestions:'' @ [nl] @ join [nl] (shotSuggestions v) @ [nl, nl]
        @ S ''B-Roll:'' @ [nl] @ join [nl] (bRoll v)) st"

subsection \<open>Speech\<close>

definition handleListen :: "jsString \<Rightarrow> jsString \<Rightarrow> state \<Rightarrow> state" where
  "handleListen key textToSpeak st =
     (if speakingKey st = Some key then
        st\<lparr>speechQueue := [], speakingKey := None\<rparr>
      else
        let st1 = st\<lparr>speechQueue := []\<rparr>;
            u = \<lparr> spoken = textToSpeak,
                  boundVoice = find (\<lambda>v. Some (voiceURI v) = selectedVoiceURI st) (voices st) \<rparr>;
            st2 = st1\<lparr>speakingKey := Some key\<rparr>
        in st2\<lparr>speechQueue := speechQueue st2 @ [u]\<rparr>)"

text \<open>The handlers \<^verbatim>\<open>utterance.onend\<close> and \<^verbatim>\<open>utterance.onerror\<close>.\<close>

definition onend :: "state \<Rightarrow> state" where
  "onend st = st\<lparr>speakingKey := None\<rparr>"

definition onerror :: "state \<Rightarrow> state" where
  "onerror st =
     st\<lparr>speakingKey := None,
        error := Some (S ''Text-to-speech failed. Your browser might not support the selected voice.'')\<rparr>"

text \<open>The \<^verbatim>\<open>onClick\<close> of a section card's listen button.\<close>

fun listenClick :: "jsString \<times> GeneratedSectionValue \<Rightarrow> state \<Rightarrow> state" where
  "listenClick (key, Text v) st = handleListen key v st"
| "listenClick (key, Visual v) st =
     handleListen key
       (S ''Shot Suggestions: '' @ join (S ''. '') (shotSuggestions v) @ S ''. B-Roll: ''
        @ join (S ''. '') (bRoll v)) st"

text \<open>
  The states the speech handlers can reach from a state with nothing speaking. The browser
  removes an utterance from its queue when it has spoken it or failed to, and then calls the
  utterance's handler; it may also call the handler of an utterance that \<^verbatim>\<open>cancel\<close> removed.
\<close>

inductive speechReachable :: "state \<Rightarrow> bool" where
  idle: "speakingKey st = None \<Longrightarrow> speechQueue st = [] \<Longrightarrow> speechReachable st"
| listen: "speechReachable st \<Longrightarrow> speechReachable (handleListen key textToSpeak st)"
| ended: "speechReachable st \<Longrightarrow> speechQueue st = u # us \<Longrightarrow>
            speechReachable (onend (st\<lparr>speechQueue := us\<rparr>))"
| failed: "speechReachable st \<Longrightarrow> speechQueue st = u # us \<Longrightarrow>
            speechReachable (onerror (st\<lparr>speechQueue := us\<rparr>))"
| cancelled_end: "speechReachable st \<Longrightarrow> speechReachable (onend st)"
| cancelled_error: "speechReachable st \<Longrightarrow> speechReachable (onerror st)"

subsection \<open>handleExportPdf\<close>

text \<open>
  A page of the PDF is the list of the texts drawn on it, each with its position. The page
  size and \<^verbatim>\<open>splitTextToSize\<close> belong to the PDF library and are parameters; lengths are
  real numbers. A new \<^verbatim>\<open>jsPDF\<close> document has one empty page; \<^verbatim>\<open>addPage\<close> appends a page and
  makes it the current one, and \<^verbatim>\<open>text\<close> draws on the current page.
\<close>

record drawn =
  content :: jsString
  atX :: real
  atY :: real

type_synonym page = "drawn list"

definition addPage :: "page list \<Rightarrow> page list" where
  "addPage doc = doc @ [[]]"

definition drawText :: "jsString \<Rightarrow> real \<Rightarrow> real \<Rightarrow> page list \<Rightarrow> page list" where
  "drawText s px py doc =
     butlast doc @ [last doc @ [\<lparr> content = s, atX = px, atY = py \<rparr>]]"

text \<open>The body of \<^verbatim>\<open>textLines.forEach\<close>, on the document and the cursor \<open>y\<close>.\<close>

fun forEachLine :: "real \<Rightarrow> real \<Rightarrow> jsString list \<Rightarrow> page list \<times> real \<Rightarrow> page list \<times> real" where
  "forEachLine pageHeight margin [] (doc, y) = (doc, y)"
| "forEachLine pageHeight margin (line # textLines) (doc, y) =
     (let (doc1, y1) = (if y > pageHeight - margin then (addPage doc, margin) else (doc, y))
      in forEachLine pageHeight margin textLines (drawText line margin y1 doc1, y1 + 7))"

text \<open>The saved document, or \<^const>\<open>None\<close> when there are no generated sections.\<close>

definition handleExportPdf ::
    "(code_unit \<Rightarrow> jsString) \<Rightarrow> real \<Rightarrow> real \<Rightarrow> (jsString \<Rightarrow> real \<Rightarrow> jsString list) \<Rightarrow> state
       \<Rightarrow> page list option" where
  "handleExportPdf upperOf pageHeight pageWidth splitTextToSize st =
     (if generatedSections st = None then None
      else
        let fullText = getFullScriptText upperOf False st;
            margin = 15;
            textLines = splitTextToSize fullText (pageWidth - margin * 2)
        in Some (fst (forEachLine pageHeight margin textLines ([[]], 15))))"

text \<open>
  The page layout, for stating what is drawn: \<open>drawnFrom margin k\<close> is a page of lines
  drawn at the margin from the \<open>k\<close>-th cursor position on, 7 apart, and \<open>chunks n\<close> cuts
  a list into pieces of \<open>n\<close> elements, the last one shorter when the list runs out.
\<close>

fun drawnFrom :: "real \<Rightarrow> nat \<Rightarrow> jsString list \<Rightarrow> page" where
  "drawnFrom margin k [] = []"
| "drawnFrom margin k (line # textLines) =
     \<lparr> content = line, atX = margin, atY = margin + 7 * real k \<rparr>
     # drawnFrom margin (Suc k) textLines"

fun chunks :: "nat \<Rightarrow> 'a list \<Rightarrow> 'a list list" where
  "chunks n xs = (if n = 0 \<or> xs = [] then [] else take n xs # chunks n (drop n xs))"

declare chunks.simps [simp del]

text \<open>
  The number of lines one page takes: the cursor positions \<open>margin + 7 * k\<close> that are not
  beyond \<open>pageHeight - margin\<close>.
\<close>

definition linesPerPage :: "real \<Rightarrow> real \<Rightarrow> nat" where
  "linesPerPage pageHeight margin =
     (if pageHeight - margin < margin then 0
      else nat \<lfloor>(pageHeight - margin - margin) / 7\<rfloor> + 1)"

section \<open>Scenarios\<close>

text \<open>The inputs of the scenarios of the specification, and a provider and a parser for them.\<close>

text \<open>
  The texts of the scenarios hold no code unit above U+00FF, so any table of capitals serves
  for them; this one leaves every code unit as it is.
\<close>

definition unchanged :: "code_unit \<Rightarrow> jsString" where
  "unchanged c = [c]"

definition initialState :: state where
  "initialState =
     \<lparr> scriptContent = [], wordCount = [], advancedInstructions = [],
       selectedPlatforms = [S ''Instagram''], generatedSections = None, isLoading = False,
       error = None, copiedKey = None, voices = [], selectedVoiceURI = None,
       speakingKey = None, clipboard = None, speechQueue = [] \<rparr>"

definition coffeeState :: state where
  "coffeeState = initialState\<lparr>scriptContent := S ''A 30 second video about coffee'', wordCount := S ''50''\<rparr>"

definition coffeeDocument :: sections where
  "coffeeDocument =
     [(S ''hook'', Text (S ''Try this!'')), (S ''introduction'', Text (S ''...'')),
      (S ''mainContent'', Text (S ''...'')), (S ''callToAction'', Text (S ''...'')),
      (S ''visualIdeas'', Visual \<lparr> shotSuggestions = [S ''wide shot''], bRoll = [S ''clouds''] \<rparr>),
      (S ''hashtags'', Text (S ''#coffee''))]"

text \<open>
  A reply with the hook alone, \<^verbatim>\<open>{"hook":"Hi"}\<close>, and a reply with the sentinel beside a
  non-empty main content, \<^verbatim>\<open>{"hook":"CONTENT_VIOLATION","mainContent":"Some text"}\<close>, each
  with the value \<^verbatim>\<open>JSON.parse\<close> returns for it.
\<close>

definition quoted :: "jsString \<Rightarrow> jsString" where
  "quoted s = [dquote] @ s @ [dquote]"

definition hookOnlyReply :: jsString where
  "hookOnlyReply = S ''{'' @ quoted (S ''hook'') @ S '':'' @ quoted (S ''Hi'') @ S ''}''"

definition hookOnlyDocument :: sections where
  "hookOnlyDocument = [(S ''hook'', Text (S ''Hi''))]"

definition violationReply :: jsString where
  "violationReply =
     S ''{'' @ quoted (S ''hook'') @ S '':'' @ quoted (S ''CONTENT_VIOLATION'') @ S '',''
     @ quoted (S ''mainContent'') @ S '':'' @ quoted (S ''Some text'') @ S ''}''"

definition violationDocument :: sections where
  "violationDocument = [(S ''hook'', Text (S ''CONTENT_VIOLATION'')), (S ''mainContent'', Text (S ''Some text''))]"

text \<open>A provider that resolves every request with the given text, and \<^verbatim>\<open>JSON.parse\<close> on the
  texts of the scenarios.\<close>

definition respondsWith :: "jsString \<Rightarrow> request \<Rightarrow> provider_outcome" where
  "respondsWith t req = Resolves (Some t)"

definition scenarioParse :: "jsString \<Rightarrow> parsed" where
  "scenarioParse t =
     (if t = hookOnlyReply then JsonObject hookOnlyDocument
      else if t = violationReply then JsonObject violationDocument
      else if t = S ''null'' then JsonNull
      else SyntaxError)"

text \<open>The state that shows the document of the scenario, and a \<^verbatim>\<open>splitTextToSize\<close> for text
  whose lines are shorter than the page is wide: it breaks the text at its line breaks only.\<close>

definition coffeeGenerated :: state where
  "coffeeGenerated = coffeeState\<lparr>generatedSections := Some coffeeDocument\<rparr>"

fun splitLines :: "jsString \<Rightarrow> jsString list" where
  "splitLines [] = [[]]"
| "splitLines (c # cs) =
     (if c = nl then [] # splitLines cs
      else case splitLines cs of [] \<Rightarrow> [[c]] | l # ls \<Rightarrow> (c # l) # ls)"

definition noWrap :: "jsString \<Rightarrow> real \<Rightarrow> jsString list" where
  "noWrap t width = splitLines t"

section \<open>Title derivation\<close>

lemmas title_eval = formatTitle_def isCapital_def toUpperCase_def isLineTerminator_def

lemma toUpperCase_capital: "isCapital c \<Longrightarrow> toUpperCase upperOf c = [c]"
  unfolding isCapital_def toUpperCase_def by (auto simp: word_le_nat_alt)

lemma capital_not_terminator: "isCapital c \<Longrightarrow> \<not> isLineTerminator c"
  unfolding isCapital_def isLineTerminator_def by auto

lemma capital_not_blank: "isCapital c \<Longrightarrow> c \<noteq> blank"
  unfolding isCapital_def by auto


lemma formatTitle_capital:
  "isCapital c \<Longrightarrow> formatTitle upperOf (c # cs) = blank # c # spaceBeforeCapitals cs"
  by (simp add: formatTitle_def toUpperCase_def isLineTerminator_def)

lemma titleDerivation_spec_capital:
  "isCapital c \<Longrightarrow> titleDerivation_spec upperOf (c # cs) = c # spaceBeforeCapitals cs"
  by (simp add: toUpperCase_capital capital_not_terminator)

lemma formatTitle_not_capital:
  "\<not> isCapital c \<Longrightarrow> formatTitle upperOf (c # cs) = titleDerivation_spec upperOf (c # cs)"
  by (simp add: formatTitle_def)


lemma formatTitle_keys:
  "formatTitle upperOf (S ''hook'') = S ''Hook''"
  "formatTitle upperOf (S ''introduction'') = S ''Introduction''"
  "formatTitle upperOf (S ''mainContent'') = S ''Main Content''"
  "formatTitle upperOf (S ''callToAction'') = S ''Call To Action''"
  "formatTitle upperOf (S ''visualIdeas'') = S ''Visual Ideas''"
  "formatTitle upperOf (S ''hashtags'') = S ''Hashtags''"
  by (simp_all add: formatTitle_def isCapital_def toUpperCase_def isLineTerminator_def)

text \<open>
  C4, as amended. \<^const>\<open>formatTitle\<close> puts a space before every capital letter \<open>A\<close> to \<open>Z\<close>,
  the first character included, and then capitalises the first character of the result. On a
  title that does not begin with a capital letter this is the derivation of the specification
  (a space before every internal capital letter, the first character capitalised); on a title
  that begins with one it is that derivation behind one more space. The three titles of the
  specification come out as it says, and the capitalisation reaches beyond ASCII: the
  capital of e with acute (U+00E9) is U+00C9, of the sharp s \<open>SS\<close>, of y with diaeresis U+0178.
\<close>

theorem formatTitle_derivation:
  "formatTitle upperOf title =
     (if title \<noteq> [] \<and> isCapital (hd title) then blank # titleDerivation_spec upperOf title
      else titleDerivation_spec upperOf title)
   \<and> formatTitle upperOf (S ''mainContent'') = S ''Main Content''
   \<and> formatTitle upperOf (S ''callToAction'') = S ''Call To Action''
   \<and> formatTitle upperOf (S ''hashtags'') = S ''Hashtags''
   \<and> formatTitle upperOf (0xE9 # S ''lan'') = 0xC9 # S ''lan''
   \<and> formatTitle upperOf (0xDF # S ''a'') = S ''SSa''
   \<and> formatTitle upperOf (0xFF # S ''s'') = 0x0178 # S ''s''"
proof -
  have general: "formatTitle upperOf title =
     (if title \<noteq> [] \<and> isCapital (hd title) then blank # titleDerivation_spec upperOf title
      else titleDerivation_spec upperOf title)"
  proof (cases title)
    case Nil
    then show ?thesis by (simp add: formatTitle_def)
  next
    case (Cons c cs)
    show ?thesis
    proof (cases "isCapital c")
      case True
      with Cons show ?thesis
        by (simp only: formatTitle_capital titleDerivation_spec_capital list.sel
            list.distinct simp_thms if_True)
    next
      case False
      with Cons show ?thesis
        by (simp only: formatTitle_not_capital list.sel simp_thms if_False)
    qed
  qed
  have latin: "formatTitle upperOf (0xE9 # S ''lan'') = 0xC9 # S ''lan''"
    "formatTitle upperOf (0xDF # S ''a'') = S ''SSa''"
    "formatTitle upperOf (0xFF # S ''s'') = 0x0178 # S ''s''"
    by (simp_all add: formatTitle_def isCapital_def toUpperCase_def isLineTerminator_def)
  from general formatTitle_keys(3,4,6) [of upperOf] latin show ?thesis by blast
qed

theorem formatTitle_derivation_witness:
  "formatTitle unchanged (S ''visualIdeas'') = titleDerivation_spec unchanged (S ''visualIdeas'')
   \<and> titleDerivation_spec unchanged (S ''visualIdeas'') = S ''Visual Ideas''"
  using formatTitle_derivation [of unchanged "S ''visualIdeas''"]
  by (simp add: isCapital_def toUpperCase_def isLineTerminator_def)

text \<open>
  C4 as the specification states it fails on a title that begins with a capital letter: the
  capital of \<open>Hook\<close> is not an internal one, and \<^const>\<open>formatTitle\<close> puts a space before it.
  It fails as well on an internal capital letter that is not one of \<open>A\<close> to \<open>Z\<close>: the
  E with acute (U+00C9) between \<open>my\<close> and \<open>cole\<close> gets no space.
\<close>

theorem formatTitle_Hook_counterexample:
  "formatTitle unchanged (S ''Hook'') = S '' Hook''
   \<and> titleDerivation_spec unchanged (S ''Hook'') = S ''Hook''
   \<and> formatTitle unchanged (S ''Hook'') \<noteq> titleDerivation_spec unchanged (S ''Hook'')
   \<and> formatTitle unchanged (S ''my'' @ [0xC9] @ S ''cole'') = S ''My'' @ [0xC9] @ S ''cole''"
  by (simp add: formatTitle_def isCapital_def toUpperCase_def isLineTerminator_def)



section \<open>Flattening to text\<close>

lemma join_append:
  "xs \<noteq> [] \<Longrightarrow> ys \<noteq> [] \<Longrightarrow> join sep (xs @ ys) = join sep xs @ sep @ join sep ys"
proof (induction sep xs rule: join.induct)
  case (1 sep)
  then show ?case by simp
next
  case (2 sep x)
  then show ?case by (cases ys) simp_all
next
  case (3 sep x y ys')
  then show ?case by simp
qed

lemma sectionText_eq:
  "sectionText upperOf =
     (\<lambda>(key, v). formatTitle upperOf key @ [nl] @
        (case v of
           Text body \<Rightarrow> body
         | Visual vi \<Rightarrow>
             S ''Shot Suggestions:'' @ [nl] @ join [nl] (map (\<lambda>s. S ''- '' @ s) (shotSuggestions vi))
             @ [nl, nl] @ S ''B-Roll:'' @ [nl] @ join [nl] (map (\<lambda>b. S ''- '' @ b) (bRoll vi))))"
proof
  fix p :: "jsString \<times> GeneratedSectionValue"
  obtain key v where p: "p = (key, v)" by (cases p)
  show "sectionText upperOf p = (\<lambda>(key, v). formatTitle upperOf key @ [nl] @
        (case v of
           Text body \<Rightarrow> body
         | Visual vi \<Rightarrow>
             S ''Shot Suggestions:'' @ [nl] @ join [nl] (map (\<lambda>s. S ''- '' @ s) (shotSuggestions vi))
             @ [nl, nl] @ S ''B-Roll:'' @ [nl] @ join [nl] (map (\<lambda>b. S ''- '' @ b) (bRoll vi)))) p"
    unfolding p by (cases v) (simp_all add: Let_def)
qed

lemma getFullScriptText_Some:
  "getFullScriptText upperOf forCopy (st\<lparr>generatedSections := Some doc\<rparr>) = join [nl, nl] (map (sectionText upperOf) doc)"
  by (simp add: getFullScriptText_def)

text \<open>
  C3. The full text of a document is its sections in the order of the document, joined by a
  blank line. A text section is its derived title, a line break and the body; the visual
  ideas are the derived title, then \<open>Shot Suggestions:\<close> and one line per shot behind a dash,
  a blank line, then \<open>B-Roll:\<close> and one line per item behind a dash. The text of two
  documents one after the other is the two texts with a blank line between them, and the
  visual ideas of the scenario come out as the specification writes them.
\<close>

theorem getFullScriptText_flattening:
  "getFullScriptText upperOf forCopy (st\<lparr>generatedSections := Some doc\<rparr>) =
     join [nl, nl]
       (map (\<lambda>(key, v). formatTitle upperOf key @ [nl] @
          (case v of
             Text body \<Rightarrow> body
           | Visual vi \<Rightarrow>
               S ''Shot Suggestions:'' @ [nl] @ join [nl] (map (\<lambda>s. S ''- '' @ s) (shotSuggestions vi))
               @ [nl, nl] @ S ''B-Roll:'' @ [nl] @ join [nl] (map (\<lambda>b. S ''- '' @ b) (bRoll vi))))
        doc)
   \<and> (doc1 \<noteq> [] \<and> doc2 \<noteq> [] \<longrightarrow>
        getFullScriptText upperOf forCopy (st\<lparr>generatedSections := Some (doc1 @ doc2)\<rparr>) =
          getFullScriptText upperOf forCopy (st\<lparr>generatedSections := Some doc1\<rparr>) @ [nl, nl]
          @ getFullScriptText upperOf forCopy (st\<lparr>generatedSections := Some doc2\<rparr>))
   \<and> getFullScriptText upperOf forCopy (st\<lparr>generatedSections := Some
        [(S ''visualIdeas'', Visual \<lparr> shotSuggestions = [S ''wide shot''], bRoll = [S ''clouds''] \<rparr>)]\<rparr>) =
        S ''Visual Ideas'' @ [nl] @ S ''Shot Suggestions:'' @ [nl] @ S ''- wide shot'' @ [nl, nl]
        @ S ''B-Roll:'' @ [nl] @ S ''- clouds''"
proof -
  have a: "getFullScriptText upperOf forCopy (st\<lparr>generatedSections := Some doc\<rparr>) =
     join [nl, nl]
       (map (\<lambda>(key, v). formatTitle upperOf key @ [nl] @
          (case v of
             Text body \<Rightarrow> body
           | Visual vi \<Rightarrow>
               S ''Shot Suggestions:'' @ [nl] @ join [nl] (map (\<lambda>s. S ''- '' @ s) (shotSuggestions vi))
               @ [nl, nl] @ S ''B-Roll:'' @ [nl] @ join [nl] (map (\<lambda>b. S ''- '' @ b) (bRoll vi))))
        doc)"
    by (simp only: getFullScriptText_Some sectionText_eq [symmetric])
  have b: "doc1 \<noteq> [] \<and> doc2 \<noteq> [] \<longrightarrow>
        getFullScriptText upperOf forCopy (st\<lparr>generatedSections := Some (doc1 @ doc2)\<rparr>) =
          getFullScriptText upperOf forCopy (st\<lparr>generatedSections := Some doc1\<rparr>) @ [nl, nl]
          @ getFullScriptText upperOf forCopy (st\<lparr>generatedSections := Some doc2\<rparr>)"
    by (simp add: getFullScriptText_def join_append)
  have c: "getFullScriptText upperOf forCopy (st\<lparr>generatedSections := Some
        [(S ''visualIdeas'', Visual \<lparr> shotSuggestions = [S ''wide shot''], bRoll = [S ''clouds''] \<rparr>)]\<rparr>) =
        S ''Visual Ideas'' @ [nl] @ S ''Shot Suggestions:'' @ [nl] @ S ''- wide shot'' @ [nl, nl]
        @ S ''B-Roll:'' @ [nl] @ S ''- clouds''"
    by (simp add: getFullScriptText_def title_eval)
  from a b c show ?thesis by blast
qed

theorem getFullScriptText_flattening_witness:
  "coffeeDocument \<noteq> [] \<and>
   getFullScriptText unchanged False (initialState\<lparr>generatedSections := Some (coffeeDocument @ coffeeDocument)\<rparr>) =
     getFullScriptText unchanged False (initialState\<lparr>generatedSections := Some coffeeDocument\<rparr>) @ [nl, nl]
     @ getFullScriptText unchanged False (initialState\<lparr>generatedSections := Some coffeeDocument\<rparr>)
   \<and> getFullScriptText unchanged False (initialState\<lparr>generatedSections := Some coffeeDocument\<rparr>) =
     S ''Hook'' @ [nl] @ S ''Try this!'' @ [nl, nl]
     @ S ''Introduction'' @ [nl] @ S ''...'' @ [nl, nl]
     @ S ''Main Content'' @ [nl] @ S ''...'' @ [nl, nl]
     @ S ''Call To Action'' @ [nl] @ S ''...'' @ [nl, nl]
     @ S ''Visual Ideas'' @ [nl] @ S ''Shot Suggestions:'' @ [nl] @ S ''- wide shot'' @ [nl, nl]
     @ S ''B-Roll:'' @ [nl] @ S ''- clouds'' @ [nl, nl]
     @ S ''Hashtags'' @ [nl] @ S ''#coffee''"
proof -
  have ne: "coffeeDocument \<noteq> []" by (simp add: coffeeDocument_def)
  have two: "getFullScriptText unchanged False (initialState\<lparr>generatedSections := Some (coffeeDocument @ coffeeDocument)\<rparr>) =
     getFullScriptText unchanged False (initialState\<lparr>generatedSections := Some coffeeDocument\<rparr>) @ [nl, nl]
     @ getFullScriptText unchanged False (initialState\<lparr>generatedSections := Some coffeeDocument\<rparr>)"
    using getFullScriptText_flattening [where ?doc1.0 = coffeeDocument and ?doc2.0 = coffeeDocument
        and forCopy = False and st = initialState] ne
    by blast
  have full: "getFullScriptText unchanged False (initialState\<lparr>generatedSections := Some coffeeDocument\<rparr>) =
     S ''Hook'' @ [nl] @ S ''Try this!'' @ [nl, nl]
     @ S ''Introduction'' @ [nl] @ S ''...'' @ [nl, nl]
     @ S ''Main Content'' @ [nl] @ S ''...'' @ [nl, nl]
     @ S ''Call To Action'' @ [nl] @ S ''...'' @ [nl, nl]
     @ S ''Visual Ideas'' @ [nl] @ S ''Shot Suggestions:'' @ [nl] @ S ''- wide shot'' @ [nl, nl]
     @ S ''B-Roll:'' @ [nl] @ S ''- clouds'' @ [nl, nl]
     @ S ''Hashtags'' @ [nl] @ S ''#coffee''"
    by (simp add: getFullScriptText_def coffeeDocument_def title_eval)
  from ne two full show ?thesis by blast
qed

text \<open>
  C10. The copy button of a section puts on the clipboard the body of a text section as it
  is, and for the visual ideas \<open>Shot Suggestions:\<close>, the shots one per line, a blank line,
  \<open>B-Roll:\<close> and the items one per line: no title and no dashes, where the full text of the
  same section alone has both.
\<close>

theorem copyClick_clipboard:
  "clipboard (copyClick (key, Text body) st) = Some body
   \<and> clipboard (copyClick (key, Visual vi) st) =
       Some (S ''Shot Suggestions:'' @ [nl] @ join [nl] (shotSuggestions vi) @ [nl, nl]
             @ S ''B-Roll:'' @ [nl] @ join [nl] (bRoll vi))
   \<and> getFullScriptText upperOf False (st\<lparr>generatedSections := Some [(key, Text body)]\<rparr>) =
       formatTitle upperOf key @ [nl] @ body
   \<and> getFullScriptText upperOf False (st\<lparr>generatedSections := Some [(key, Visual vi)]\<rparr>) =
       formatTitle upperOf key @ [nl] @ S ''Shot Suggestions:'' @ [nl]
       @ join [nl] (map (\<lambda>s. S ''- '' @ s) (shotSuggestions vi)) @ [nl, nl]
       @ S ''B-Roll:'' @ [nl] @ join [nl] (map (\<lambda>b. S ''- '' @ b) (bRoll vi))"
proof -
  have a: "clipboard (copyClick (key, Text body) st) = Some body"
    by (simp add: handleCopy_def)
  have b: "clipboard (copyClick (key, Visual vi) st) =
       Some (S ''Shot Suggestions:'' @ [nl] @ join [nl] (shotSuggestions vi) @ [nl, nl]
             @ S ''B-Roll:'' @ [nl] @ join [nl] (bRoll vi))"
    by (simp add: handleCopy_def)
  have c: "getFullScriptText upperOf False (st\<lparr>generatedSections := Some [(key, Text body)]\<rparr>) =
       formatTitle upperOf key @ [nl] @ body"
    by (simp only: getFullScriptText_Some list.map join.simps sectionText.simps)
  have d: "getFullScriptText upperOf False (st\<lparr>generatedSections := Some [(key, Visual vi)]\<rparr>) =
       formatTitle upperOf key @ [nl] @ S ''Shot Suggestions:'' @ [nl]
       @ join [nl] (map (\<lambda>s. S ''- '' @ s) (shotSuggestions vi)) @ [nl, nl]
       @ S ''B-Roll:'' @ [nl] @ join [nl] (map (\<lambda>b. S ''- '' @ b) (bRoll vi))"
    by (simp only: getFullScriptText_Some list.map join.simps sectionText.simps Let_def)
  from a b c d show ?thesis by blast
qed

theorem copyClick_clipboard_witness:
  "clipboard (copyClick (S ''visualIdeas'',
      Visual \<lparr> shotSuggestions = [S ''wide shot'', S ''close-up''], bRoll = [S ''clouds''] \<rparr>) initialState) =
     Some (S ''Shot Suggestions:'' @ [nl] @ S ''wide shot'' @ [nl] @ S ''close-up'' @ [nl, nl]
           @ S ''B-Roll:'' @ [nl] @ S ''clouds'')
   \<and> getFullScriptText unchanged False (initialState\<lparr>generatedSections := Some [(S ''visualIdeas'',
      Visual \<lparr> shotSuggestions = [S ''wide shot'', S ''close-up''], bRoll = [S ''clouds''] \<rparr>)]\<rparr>) =
     S ''Visual Ideas'' @ [nl] @ S ''Shot Suggestions:'' @ [nl] @ S ''- wide shot'' @ [nl]
     @ S ''- close-up'' @ [nl, nl] @ S ''B-Roll:'' @ [nl] @ S ''- clouds''
   \<and> clipboard (copyClick (S ''hook'', Text (S ''Try this!'')) initialState) = Some (S ''Try this!'')"
  using copyClick_clipboard [of "(S ''visualIdeas'')" "(S ''Try this!'')" initialState
      "\<lparr> shotSuggestions = [S ''wide shot'', S ''close-up''], bRoll = [S ''clouds''] \<rparr>"]
    copyClick_clipboard [of "(S ''hook'')" "(S ''Try this!'')" initialState
      "\<lparr> shotSuggestions = [], bRoll = [] \<rparr>"]
  by (simp add: title_eval)

section \<open>Validation of the inputs and of the reply\<close>

lemma trim_Nil_iff: "trim s = [] \<longleftrightarrow> (\<forall>c\<in>set s. isWhiteSpace c)"
proof -
  have "trim s = [] \<longleftrightarrow> (\<forall>c\<in>set (dropWhile isWhiteSpace s). isWhiteSpace c)"
    by (simp add: trim_def dropWhile_eq_Nil_conv)
  also have "\<dots> \<longleftrightarrow> (\<forall>c\<in>set s. isWhiteSpace c)"
  proof
    assume all: "\<forall>c\<in>set (dropWhile isWhiteSpace s). isWhiteSpace c"
    have "dropWhile isWhiteSpace s = []"
    proof (rule ccontr)
      assume ne: "dropWhile isWhiteSpace s \<noteq> []"
      then have "\<not> isWhiteSpace (hd (dropWhile isWhiteSpace s))" by (rule hd_dropWhile)
      moreover from ne have "hd (dropWhile isWhiteSpace s) \<in> set (dropWhile isWhiteSpace s)"
        by (rule hd_in_set)
      ultimately show False using all by blast
    qed
    then show "\<forall>c\<in>set s. isWhiteSpace c" by (simp only: dropWhile_eq_Nil_conv)
  next
    assume "\<forall>c\<in>set s. isWhiteSpace c"
    then show "\<forall>c\<in>set (dropWhile isWhiteSpace s). isWhiteSpace c"
      by (blast dest: set_dropWhileD)
  qed
  finally show ?thesis .
qed

lemma scenario_facts:
  "\<not> (\<forall>c\<in>set (scriptContent coffeeState). isWhiteSpace c)"
  "selectedPlatforms coffeeState \<noteq> []"
  "hookOnlyReply \<noteq> []"
  "violationReply \<noteq> []"
  "scenarioParse hookOnlyReply = JsonObject hookOnlyDocument"
  "scenarioParse violationReply = JsonObject violationDocument"
  by (simp_all add: coffeeState_def initialState_def isWhiteSpace_def hookOnlyReply_def
      violationReply_def scenarioParse_def quoted_def)

text \<open>
  C8. With a blank idea (empty, or white space only) \<^const>\<open>handleGenerate\<close> sets the message
  asking for an idea, and with an idea but no platform the message asking for a platform; in
  both cases nothing else of the state changes and no request is sent. A request is sent in
  no other case than these two.
\<close>

theorem handleGenerate_input_validation:
  "((\<forall>c\<in>set (scriptContent st). isWhiteSpace c) \<longrightarrow>
      handleGenerate generateContent jsonParse st =
        (st\<lparr>error := Some (S ''Please enter a content idea first.'')\<rparr>, []))
   \<and> (\<not> (\<forall>c\<in>set (scriptContent st). isWhiteSpace c) \<and> selectedPlatforms st = [] \<longrightarrow>
      handleGenerate generateContent jsonParse st =
        (st\<lparr>error := Some (S ''Please select at least one target platform.'')\<rparr>, []))
   \<and> (snd (handleGenerate generateContent jsonParse st) = [] \<longleftrightarrow>
        (\<forall>c\<in>set (scriptContent st). isWhiteSpace c) \<or> selectedPlatforms st = [])"
  by (simp add: handleGenerate_def trim_Nil_iff Let_def)

theorem handleGenerate_input_validation_witness:
  "handleGenerate (respondsWith hookOnlyReply) scenarioParse (initialState\<lparr>scriptContent := [blank, 0xA0, nl]\<rparr>) =
     (initialState\<lparr>scriptContent := [blank, 0xA0, nl], error := Some (S ''Please enter a content idea first.'')\<rparr>, [])
   \<and> handleGenerate (respondsWith hookOnlyReply) scenarioParse (coffeeState\<lparr>selectedPlatforms := []\<rparr>) =
     (coffeeState\<lparr>selectedPlatforms := [], error := Some (S ''Please select at least one target platform.'')\<rparr>, [])
   \<and> snd (handleGenerate (respondsWith hookOnlyReply) scenarioParse coffeeState) \<noteq> []"
proof -
  have ws: "\<forall>c\<in>set (scriptContent (initialState\<lparr>scriptContent := [blank, 0xA0, nl]\<rparr>)). isWhiteSpace c"
    by (simp add: isWhiteSpace_def)
  have idea: "\<not> (\<forall>c\<in>set (scriptContent coffeeState). isWhiteSpace c)"
    by (simp add: coffeeState_def initialState_def isWhiteSpace_def)
  have a: "handleGenerate (respondsWith hookOnlyReply) scenarioParse (initialState\<lparr>scriptContent := [blank, 0xA0, nl]\<rparr>) =
     (initialState\<lparr>scriptContent := [blank, 0xA0, nl], error := Some (S ''Please enter a content idea first.'')\<rparr>, [])"
    using handleGenerate_input_validation
      [of "initialState\<lparr>scriptContent := [blank, 0xA0, nl]\<rparr>" "respondsWith hookOnlyReply" scenarioParse]
      ws by blast
  have b: "handleGenerate (respondsWith hookOnlyReply) scenarioParse (coffeeState\<lparr>selectedPlatforms := []\<rparr>) =
     (coffeeState\<lparr>selectedPlatforms := [], error := Some (S ''Please select at least one target platform.'')\<rparr>, [])"
    using handleGenerate_input_validation
      [of "coffeeState\<lparr>selectedPlatforms := []\<rparr>" "respondsWith hookOnlyReply" scenarioParse]
      idea by simp
  have c: "snd (handleGenerate (respondsWith hookOnlyReply) scenarioParse coffeeState) \<noteq> []"
    using handleGenerate_input_validation
      [of coffeeState "respondsWith hookOnlyReply" scenarioParse] idea
    by (simp add: coffeeState_def initialState_def)
  from a b c show ?thesis by blast
qed

text \<open>
  C2. When the reply parses to an object whose \<open>hook\<close> is the sentinel
  \<open>CONTENT_VIOLATION\<close>, the handler ends with the refusal message as the error and with no
  generated sections, whatever else the object holds.
\<close>

theorem handleGenerate_policy_rejection:
  assumes "\<not> (\<forall>c\<in>set (scriptContent st). isWhiteSpace c)"
    and "selectedPlatforms st \<noteq> []"
    and "generateContent (request st) = Resolves (Some t)"
    and "t \<noteq> []"
    and "jsonParse t = JsonObject jsonResponse"
    and "map_of jsonResponse (S ''hook'') = Some (Text (S ''CONTENT_VIOLATION''))"
  shows "fst (handleGenerate generateContent jsonParse st) =
           st\<lparr>isLoading := False, generatedSections := None,
              error := Some (S ''Sorry, we are not able to provide this type of information.'')\<rparr>"
proof -
  from assms(1) have "trim (scriptContent st) \<noteq> []" by (simp add: trim_Nil_iff)
  with assms(2-6) show ?thesis
    by (simp add: handleGenerate_def acceptReply_def hookIsViolation_def Let_def)
qed
theorem handleGenerate_policy_rejection_witness:
  "map_of violationDocument (S ''mainContent'') = Some (Text (S ''Some text''))
   \<and> fst (handleGenerate (respondsWith violationReply) scenarioParse
        (coffeeState\<lparr>generatedSections := Some coffeeDocument\<rparr>)) =
      coffeeState\<lparr>error := Some (S ''Sorry, we are not able to provide this type of information.'')\<rparr>"
proof -
  let ?st = "coffeeState\<lparr>generatedSections := Some coffeeDocument\<rparr>"
  have 1: "\<not> (\<forall>c\<in>set (scriptContent ?st). isWhiteSpace c)"
    using scenario_facts(1) by simp
  have 2: "selectedPlatforms ?st \<noteq> []" using scenario_facts(2) by simp
  have 3: "respondsWith violationReply (request ?st) = Resolves (Some violationReply)"
    by (simp add: respondsWith_def)
  have 6: "map_of violationDocument (S ''hook'') = Some (Text (S ''CONTENT_VIOLATION''))"
    by (simp add: violationDocument_def)
  have 7: "map_of violationDocument (S ''mainContent'') = Some (Text (S ''Some text''))"
    by (simp add: violationDocument_def)
  from handleGenerate_policy_rejection
    [where st = ?st and generateContent = "respondsWith violationReply" and t = violationReply
       and jsonParse = scenarioParse and jsonResponse = violationDocument,
     OF 1 2 3 scenario_facts(4) scenario_facts(6) 6] 7
  show ?thesis by (simp add: coffeeState_def initialState_def)
qed

text \<open>
  C1, as amended. When the reply parses to an object whose \<open>hook\<close> is not the sentinel, the
  handler stores the object as the generated sections, as parsed and whatever keys it has,
  and sets no error. The six keys are the \<open>required\<close> list of the response schema in the
  request; the reply is not checked against it.
\<close>

theorem handleGenerate_exposes_parsed:
  assumes "\<not> (\<forall>c\<in>set (scriptContent st). isWhiteSpace c)"
    and "selectedPlatforms st \<noteq> []"
    and "generateContent (request st) = Resolves (Some t)"
    and "t \<noteq> []"
    and "jsonParse t = JsonObject jsonResponse"
    and "map_of jsonResponse (S ''hook'') \<noteq> Some (Text (S ''CONTENT_VIOLATION''))"
  shows "handleGenerate generateContent jsonParse st =
           (st\<lparr>isLoading := False, error := None, generatedSections := Some jsonResponse\<rparr>,
            [request st])
         \<and> required (request st) =
             [S ''hook'', S ''introduction'', S ''mainContent'', S ''callToAction'', S ''visualIdeas'', S ''hashtags'']"
proof -
  from assms(1) have "trim (scriptContent st) \<noteq> []" by (simp add: trim_Nil_iff)
  with assms(2-6) show ?thesis
    by (simp add: handleGenerate_def acceptReply_def hookIsViolation_def Let_def request_def)
qed

theorem handleGenerate_exposes_parsed_witness:
  "fst (handleGenerate (respondsWith hookOnlyReply) scenarioParse coffeeState) =
     coffeeState\<lparr>generatedSections := Some [(S ''hook'', Text (S ''Hi''))]\<rparr>"
proof -
  have 3: "respondsWith hookOnlyReply (request coffeeState) = Resolves (Some hookOnlyReply)"
    by (simp add: respondsWith_def)
  have 6: "map_of hookOnlyDocument (S ''hook'') \<noteq> Some (Text (S ''CONTENT_VIOLATION''))"
    by (simp add: hookOnlyDocument_def)
  from handleGenerate_exposes_parsed
    [where st = coffeeState and generateContent = "respondsWith hookOnlyReply" and t = hookOnlyReply
       and jsonParse = scenarioParse and jsonResponse = hookOnlyDocument,
     OF scenario_facts(1) scenario_facts(2) 3 scenario_facts(3) scenario_facts(5) 6]
  show ?thesis by (simp add: coffeeState_def initialState_def hookOnlyDocument_def)
qed

text \<open>
  C1 as the specification states it fails on a reply that holds the hook alone: five of the
  six keys are missing, and the object is stored as the generated sections with no error.
\<close>

theorem handleGenerate_missing_keys_counterexample:
  "map_of hookOnlyDocument (S ''introduction'') = None
   \<and> generatedSections (fst (handleGenerate (respondsWith hookOnlyReply) scenarioParse coffeeState)) =
       Some hookOnlyDocument
   \<and> error (fst (handleGenerate (respondsWith hookOnlyReply) scenarioParse coffeeState)) = None"
  by (simp add: handleGenerate_def acceptReply_def hookIsViolation_def Let_def respondsWith_def
      scenarioParse_def hookOnlyReply_def hookOnlyDocument_def quoted_def coffeeState_def
      initialState_def trim_def isWhiteSpace_def)

section \<open>The prompt\<close>

lemma wordCountGiven_iff:
  "wordCountGiven w \<longleftrightarrow> (\<exists>n. parseInt w = Some n \<and> 0 < n)"
proof (cases "w = []")
  case True
  then show ?thesis by (simp add: wordCountGiven_def parseInt_def)
next
  case False
  then show ?thesis by (auto simp: wordCountGiven_def split: option.splits)
qed

lemma sublist_within: "sublist x ys \<Longrightarrow> sublist x (ps @ ys @ ss)"
proof -
  assume "sublist x ys"
  then obtain a b where "ys = a @ x @ b" by (auto simp: sublist_def)
  then have "ps @ ys @ ss = (ps @ a) @ x @ (b @ ss)" by simp
  then show ?thesis unfolding sublist_def by blast
qed

lemma sublist_join: "x \<in> set xs \<Longrightarrow> sublist x (join sep xs)"
proof (induction sep xs rule: join.induct)
  case (1 sep)
  then show ?case by simp
next
  case (2 sep y)
  then show ?case by simp
next
  case (3 sep y z zs)
  show ?case
  proof (cases "x = y")
    case True
    then show ?thesis by simp
  next
    case False
    with 3 have "sublist x (join sep (z # zs))" by simp
    then have "sublist x ((y @ sep) @ join sep (z # zs) @ [])" by (rule sublist_within)
    then show ?thesis by simp
  qed
qed

text \<open>The prompt up to and including the idea, and what follows the word count directive.\<close>

lemma prompt_parts:
  "\<exists>a b c. prompt st =
      a @ join (S '', '') (selectedPlatforms st) @ b @ scriptContent st @ [dquote]
      @ (if wordCountGiven (wordCount st)
         then [nl, nl] @ S ''The main content should be approximately '' @ wordCount st @ S '' words.''
         else []) @ c
    \<and> prompt (st\<lparr>wordCount := []\<rparr>) =
      a @ join (S '', '') (selectedPlatforms st) @ b @ scriptContent st @ [dquote] @ c"
proof -
  have ng: "\<not> wordCountGiven []" by (simp add: wordCountGiven_def)
  show ?thesis
    apply (rule exI [of _ "(S ''Based on the following content idea, generate a script for a social media post tailored for the following platforms: '')"])
    apply (rule exI [of _ "S ''. Include a hook, introduction, main content, a call to action, detailed visual ideas (with specific shot suggestions and B-roll ideas), and relevant hashtags.'' @ [nl, nl] @ S ''Idea: '' @ [dquote]"])
    apply (rule exI [of _ "if trim (advancedInstructions st) \<noteq> []
         then [nl, nl] @ S ''Advanced Instructions: '' @ trim (advancedInstructions st) else []"])
    apply (simp add: prompt_def Let_def wordCountDirective_def ng)
    done
qed

lemma prompt_explicit:
  "prompt st =
     S ''Based on the following content idea, generate a script for a social media post tailored for the following platforms: ''
     @ join (S '', '') (selectedPlatforms st)
     @ S ''. Include a hook, introduction, main content, a call to action, detailed visual ideas (with specific shot suggestions and B-roll ideas), and relevant hashtags.''
     @ [nl, nl] @ S ''Idea: '' @ [dquote] @ scriptContent st @ [dquote]
     @ (if (\<exists>n. parseInt (wordCount st) = Some n \<and> 0 < n)
        then [nl, nl] @ S ''The main content should be approximately '' @ wordCount st
             @ S '' words.''
        else [])
     @ (if trim (advancedInstructions st) = [] then []
        else [nl, nl] @ S ''Advanced Instructions: '' @ trim (advancedInstructions st))"
  by (simp add: prompt_def Let_def wordCountDirective_def wordCountGiven_iff [symmetric])

text \<open>
  C7. The prompt is the fixed opening with the list of the platforms, the idea between
  quotation marks, then the word count directive if the word count is given, then the
  advanced instructions if there are any, and nothing else. So it holds the idea and the
  list of the platforms (and so each platform), and the
  word count directive is added exactly when \<^const>\<open>parseInt\<close> of the word count is an
  integer above zero: then the prompt is the prompt of the same inputs without a word count,
  with the directive inserted; otherwise it is that prompt. For the idea, the platform and
  the word count of the scenario the prompt holds \<open>approximately 50 words\<close> and
  \<open>Instagram\<close>.
\<close>

theorem prompt_contents:
  "prompt st =
     S ''Based on the following content idea, generate a script for a social media post tailored for the following platforms: ''
     @ join (S '', '') (selectedPlatforms st)
     @ S ''. Include a hook, introduction, main content, a call to action, detailed visual ideas (with specific shot suggestions and B-roll ideas), and relevant hashtags.''
     @ [nl, nl] @ S ''Idea: '' @ [dquote] @ scriptContent st @ [dquote]
     @ (if (\<exists>n. parseInt (wordCount st) = Some n \<and> 0 < n)
        then [nl, nl] @ S ''The main content should be approximately '' @ wordCount st
             @ S '' words.''
        else [])
     @ (if trim (advancedInstructions st) = [] then []
        else [nl, nl] @ S ''Advanced Instructions: '' @ trim (advancedInstructions st))
   \<and> sublist (scriptContent st) (prompt st)
   \<and> sublist (join (S '', '') (selectedPlatforms st)) (prompt st)
   \<and> (\<forall>p\<in>set (selectedPlatforms st). sublist p (prompt st))
   \<and> (wordCountGiven (wordCount st) \<longleftrightarrow> (\<exists>n. parseInt (wordCount st) = Some n \<and> 0 < n))
   \<and> (wordCountGiven (wordCount st) \<longrightarrow>
        (\<exists>a b. prompt st =
            a @ [nl, nl] @ S ''The main content should be approximately '' @ wordCount st
            @ S '' words.'' @ b
          \<and> prompt (st\<lparr>wordCount := []\<rparr>) = a @ b))
   \<and> (\<not> wordCountGiven (wordCount st) \<longrightarrow> prompt st = prompt (st\<lparr>wordCount := []\<rparr>))
   \<and> sublist (S ''approximately 50 words'') (prompt coffeeState)
   \<and> sublist (S ''Instagram'') (prompt coffeeState)"
proof -
  obtain a b c where p: "prompt st =
      a @ join (S '', '') (selectedPlatforms st) @ b @ scriptContent st @ [dquote]
      @ (if wordCountGiven (wordCount st)
         then [nl, nl] @ S ''The main content should be approximately '' @ wordCount st @ S '' words.''
         else []) @ c"
    and q: "prompt (st\<lparr>wordCount := []\<rparr>) =
      a @ join (S '', '') (selectedPlatforms st) @ b @ scriptContent st @ [dquote] @ c"
    using prompt_parts [of st] by blast
  have idea: "sublist (scriptContent st) (prompt st)"
    unfolding p sublist_def
    by (rule exI [of _ "a @ join (S '', '') (selectedPlatforms st) @ b"]) auto
  have platforms: "sublist (join (S '', '') (selectedPlatforms st)) (prompt st)"
    unfolding p by (rule sublist_appendI)
  have each: "\<forall>p\<in>set (selectedPlatforms st). sublist p (prompt st)"
  proof
    fix x assume "x \<in> set (selectedPlatforms st)"
    then have "sublist x (join (S '', '') (selectedPlatforms st))" by (rule sublist_join)
    then show "sublist x (prompt st)" unfolding p by (rule sublist_within)
  qed
  have given: "wordCountGiven (wordCount st) \<longrightarrow>
        (\<exists>a b. prompt st =
            a @ [nl, nl] @ S ''The main content should be approximately '' @ wordCount st
            @ S '' words.'' @ b
          \<and> prompt (st\<lparr>wordCount := []\<rparr>) = a @ b)"
  proof
    assume g: "wordCountGiven (wordCount st)"
    show "\<exists>a b. prompt st =
            a @ [nl, nl] @ S ''The main content should be approximately '' @ wordCount st
            @ S '' words.'' @ b
          \<and> prompt (st\<lparr>wordCount := []\<rparr>) = a @ b"
      apply (rule exI [of _ "a @ join (S '', '') (selectedPlatforms st) @ b @ scriptContent st @ [dquote]"])
      apply (rule exI [of _ c])
      using g apply (simp add: p q)
      done
  qed
  have absent: "\<not> wordCountGiven (wordCount st) \<longrightarrow> prompt st = prompt (st\<lparr>wordCount := []\<rparr>)"
    by (simp add: p q)
  have g50: "wordCountGiven (S ''50'')" by code_simp
  have coffee: "prompt coffeeState =
     (S ''Based on the following content idea, generate a script for a social media post tailored for the following platforms: '')
     @ S ''Instagram''
     @ ((S ''. Include a hook, introduction, main content, a call to action, detailed visual ideas (with specific shot suggestions and B-roll ideas), and relevant hashtags.'')
        @ [nl, nl] @ S ''Idea: '' @ [dquote] @ S ''A 30 second video about coffee'' @ [dquote]
        @ [nl, nl] @ S ''The main content should be '') @ S ''approximately 50 words'' @ S ''.''"
    using g50
    by (simp add: prompt_def Let_def wordCountDirective_def coffeeState_def initialState_def
        trim_def)
  have w50: "sublist (S ''approximately 50 words'') (prompt coffeeState)"
    unfolding coffee sublist_def
    by (rule exI [of _ "(S ''Based on the following content idea, generate a script for a social media post tailored for the following platforms: '')
     @ S ''Instagram''
     @ ((S ''. Include a hook, introduction, main content, a call to action, detailed visual ideas (with specific shot suggestions and B-roll ideas), and relevant hashtags.'')
        @ [nl, nl] @ S ''Idea: '' @ [dquote] @ S ''A 30 second video about coffee'' @ [dquote]
        @ [nl, nl] @ S ''The main content should be '')"], rule exI [of _ "(S ''.'')"]) simp
  have insta: "sublist (S ''Instagram'') (prompt coffeeState)"
    unfolding coffee by (rule sublist_appendI)
  from prompt_explicit [of st] idea platforms each wordCountGiven_iff [of "wordCount st"]
    given absent w50 insta
  show ?thesis by blast
qed

theorem prompt_contents_witness:
  "parseInt (S ''50'') = Some 50
   \<and> wordCountGiven (wordCount coffeeState)
   \<and> sublist (S ''Instagram'') (prompt coffeeState)
   \<and> (\<exists>a b. prompt coffeeState =
         a @ [nl, nl] @ S ''The main content should be approximately 50 words.'' @ b
       \<and> prompt (coffeeState\<lparr>wordCount := []\<rparr>) = a @ b)
   \<and> \<not> wordCountGiven (S ''0.5'')
   \<and> prompt (coffeeState\<lparr>wordCount := S ''0.5''\<rparr>) = prompt (coffeeState\<lparr>wordCount := []\<rparr>)
   \<and> prompt (coffeeState\<lparr>wordCount := S ''0.5''\<rparr>) =
       S ''Based on the following content idea, generate a script for a social media post tailored for the following platforms: Instagram. Include a hook, introduction, main content, a call to action, detailed visual ideas (with specific shot suggestions and B-roll ideas), and relevant hashtags.''
       @ [nl, nl] @ S ''Idea: '' @ [dquote] @ S ''A 30 second video about coffee'' @ [dquote]"
proof -
  have p50: "parseInt (S ''50'') = Some 50" by code_simp
  have wc: "wordCount coffeeState = S ''50''" by (simp add: coffeeState_def)
  have pl: "(S ''Instagram'') \<in> set (selectedPlatforms coffeeState)"
    by (simp add: coffeeState_def initialState_def)
  have wc2: "wordCount (coffeeState\<lparr>wordCount := S ''0.5''\<rparr>) = S ''0.5''" by simp
  have p05: "parseInt (S ''0.5'') = Some 0" by code_simp
  note t1 = prompt_contents [of coffeeState, THEN conjunct2]
  note t2 = prompt_contents [of "coffeeState\<lparr>wordCount := S ''0.5''\<rparr>", THEN conjunct2]
  note t3 = prompt_contents [of "coffeeState\<lparr>wordCount := S ''0.5''\<rparr>", THEN conjunct1]
  have g: "wordCountGiven (wordCount coffeeState)" using t1 p50 wc by simp
  have i: "sublist (S ''Instagram'') (prompt coffeeState)" using t1 pl by blast
  have d: "\<exists>a b. prompt coffeeState =
         a @ [nl, nl] @ S ''The main content should be approximately 50 words.'' @ b
       \<and> prompt (coffeeState\<lparr>wordCount := []\<rparr>) = a @ b"
    using t1 g wc by simp
  have ng: "\<not> wordCountGiven (S ''0.5'')" using t2 p05 wc2 by simp
  have e: "prompt (coffeeState\<lparr>wordCount := S ''0.5''\<rparr>) = prompt (coffeeState\<lparr>wordCount := []\<rparr>)"
    using t2 ng wc2 by simp
  have x: "prompt (coffeeState\<lparr>wordCount := S ''0.5''\<rparr>) =
       S ''Based on the following content idea, generate a script for a social media post tailored for the following platforms: Instagram. Include a hook, introduction, main content, a call to action, detailed visual ideas (with specific shot suggestions and B-roll ideas), and relevant hashtags.''
       @ [nl, nl] @ S ''Idea: '' @ [dquote] @ S ''A 30 second video about coffee'' @ [dquote]"
    using t3 p05 by (simp add: coffeeState_def initialState_def trim_def)
  from p50 g i d ng e x show ?thesis by blast
qed

section \<open>Speech\<close>

lemma handleListen_same:
  "speakingKey st = Some key \<Longrightarrow> handleListen key t st = st\<lparr>speechQueue := [], speakingKey := None\<rparr>"
  by (simp add: handleListen_def)

lemma handleListen_other:
  "speakingKey st \<noteq> Some key \<Longrightarrow>
     speakingKey (handleListen key t st) = Some key
     \<and> speechQueue (handleListen key t st) =
         [\<lparr> spoken = t, boundVoice = find (\<lambda>v. Some (voiceURI v) = selectedVoiceURI st) (voices st) \<rparr>]"
  by (simp add: handleListen_def Let_def)

lemma speechReachable_invariant:
  "speechReachable st \<Longrightarrow>
     length (speechQueue st) \<le> 1 \<and> (speakingKey st \<noteq> None \<longrightarrow> speechQueue st \<noteq> [])"
proof (induction rule: speechReachable.induct)
  case (idle st)
  then show ?case by simp
next
  case (listen st key textToSpeak)
  show ?case by (cases "speakingKey st = Some key") (simp_all add: handleListen_def Let_def)
next
  case (ended st u us)
  then show ?case by (simp add: onend_def)
next
  case (failed st u us)
  then show ?case by (simp add: onerror_def)
next
  case (cancelled_end st)
  then show ?case by (simp add: onend_def)
next
  case (cancelled_error st)
  then show ?case by (simp add: onerror_def)
qed

text \<open>
  C5. The speaking key is one optional key, so no state marks two keys. In every state the
  speech handlers reach, the queue of the synthesiser holds at most one utterance, and it
  holds one whenever a key is marked as speaking. \<^const>\<open>handleListen\<close> with the key that is
  speaking cancels the playback and clears the key; with any other key it cancels whatever
  plays, marks the new key and leaves the new utterance as the only one in the queue.
\<close>

theorem speech_exclusive:
  "(speechReachable st \<longrightarrow>
      length (speechQueue st) \<le> 1 \<and> (speakingKey st \<noteq> None \<longrightarrow> speechQueue st \<noteq> []))
   \<and> (speakingKey st = Some key \<longrightarrow>
        speakingKey (handleListen key t st) = None \<and> speechQueue (handleListen key t st) = [])
   \<and> (speakingKey st \<noteq> Some key \<longrightarrow>
        speakingKey (handleListen key t st) = Some key
        \<and> speechQueue (handleListen key t st) =
            [\<lparr> spoken = t,
               boundVoice = find (\<lambda>v. Some (voiceURI v) = selectedVoiceURI st) (voices st) \<rparr>])"
  using speechReachable_invariant [of st] handleListen_other [of st key t]
  by (simp add: handleListen_same)

theorem speech_exclusive_witness:
  "speechReachable (handleListen (S ''introduction'') (S ''Welcome'') (handleListen (S ''hook'') (S ''Try this!'') initialState))
   \<and> speakingKey (handleListen (S ''hook'') (S ''Try this!'') initialState) = Some (S ''hook'')
   \<and> speakingKey (handleListen (S ''hook'') (S ''Try this!'') (handleListen (S ''hook'') (S ''Try this!'') initialState)) = None
   \<and> speechQueue (handleListen (S ''hook'') (S ''Try this!'') (handleListen (S ''hook'') (S ''Try this!'') initialState)) = []
   \<and> speakingKey (handleListen (S ''introduction'') (S ''Welcome'') (handleListen (S ''hook'') (S ''Try this!'') initialState))
       = Some (S ''introduction'')
   \<and> speechQueue (handleListen (S ''introduction'') (S ''Welcome'') (handleListen (S ''hook'') (S ''Try this!'') initialState))
       = [\<lparr> spoken = S ''Welcome'', boundVoice = None \<rparr>]
   \<and> length (speechQueue (handleListen (S ''introduction'') (S ''Welcome'')
        (handleListen (S ''hook'') (S ''Try this!'') initialState))) \<le> 1"
proof -
  let ?s1 = "handleListen (S ''hook'') (S ''Try this!'') initialState"
  let ?s2 = "handleListen (S ''introduction'') (S ''Welcome'') ?s1"
  have r0: "speechReachable initialState"
    by (rule speechReachable.idle) (simp_all add: initialState_def)
  have r2: "speechReachable ?s2" by (intro speechReachable.listen r0)
  have k0: "speakingKey initialState \<noteq> Some (S ''hook'')" by (simp add: initialState_def)
  have k1: "speakingKey ?s1 = Some (S ''hook'')"
    using speech_exclusive [of initialState "(S ''hook'')" "(S ''Try this!'')"] k0 by blast
  have v: "find (\<lambda>v. Some (voiceURI v) = selectedVoiceURI ?s1) (voices ?s1) = None"
    by (simp add: handleListen_def initialState_def Let_def)
  have off: "speakingKey (handleListen (S ''hook'') (S ''Try this!'') ?s1) = None
      \<and> speechQueue (handleListen (S ''hook'') (S ''Try this!'') ?s1) = []"
    using speech_exclusive [of ?s1 "(S ''hook'')" "(S ''Try this!'')"] k1 by blast
  have k1': "speakingKey ?s1 \<noteq> Some (S ''introduction'')" using k1 by simp
  have switch: "speakingKey ?s2 = Some (S ''introduction'')
      \<and> speechQueue ?s2 = [\<lparr> spoken = S ''Welcome'', boundVoice = None \<rparr>]"
    using speech_exclusive [of ?s1 "(S ''introduction'')" "(S ''Welcome'')"] k1' v by simp
  have one: "length (speechQueue ?s2) \<le> 1"
    using speech_exclusive [of ?s2 "(S ''hook'')" "(S ''x'')"] r2 by blast
  from r2 k1 off switch one show ?thesis by blast
qed

section \<open>Pages of the PDF\<close>

lemma linesPerPage_iff:
  "k < linesPerPage pageHeight margin \<longleftrightarrow> margin + 7 * real k \<le> pageHeight - margin"
proof (cases "pageHeight - margin < margin")
  case True
  have "0 \<le> 7 * real k" by simp
  with True show ?thesis by (simp add: linesPerPage_def)
next
  case False
  define x where "x = (pageHeight - margin - margin) / 7"
  from False have x0: "0 \<le> x" by (simp add: x_def)
  then have f0: "0 \<le> \<lfloor>x\<rfloor>" by simp
  have "k < linesPerPage pageHeight margin \<longleftrightarrow> k \<le> nat \<lfloor>x\<rfloor>"
    using False by (simp add: linesPerPage_def x_def less_Suc_eq_le)
  also have "\<dots> \<longleftrightarrow> int k \<le> \<lfloor>x\<rfloor>" using f0 by linarith
  also have "\<dots> \<longleftrightarrow> real k \<le> x" by (simp add: le_floor_iff)
  also have "\<dots> \<longleftrightarrow> margin + 7 * real k \<le> pageHeight - margin"
    by (simp add: x_def field_simps)
  finally show ?thesis .
qed

lemma length_drawText: "doc \<noteq> [] \<Longrightarrow> length (drawText s px py doc) = length doc"
  by (simp add: drawText_def)

lemma drawText_not_Nil: "drawText s px py doc \<noteq> []"
  by (simp add: drawText_def)

lemma forEachLine_pages_mono:
  "doc \<noteq> [] \<Longrightarrow> length doc \<le> length (fst (forEachLine pageHeight margin textLines (doc, y)))"
proof (induction textLines arbitrary: doc y)
  case Nil
  then show ?case by simp
next
  case (Cons line textLines)
  show ?case
  proof (cases "y > pageHeight - margin")
    case True
    have "length (drawText line margin margin (addPage doc))
        \<le> length (fst (forEachLine pageHeight margin textLines
             (drawText line margin margin (addPage doc), margin + 7)))"
      by (rule Cons.IH) (rule drawText_not_Nil)
    then show ?thesis using True by (simp add: length_drawText addPage_def)
  next
    case False
    have "length (drawText line margin y doc)
        \<le> length (fst (forEachLine pageHeight margin textLines (drawText line margin y doc, y + 7)))"
      by (rule Cons.IH) (rule drawText_not_Nil)
    then show ?thesis using False Cons.prems by (simp add: length_drawText)
  qed
qed

lemma forEachLine_fits:
  "doc \<noteq> [] \<Longrightarrow> y = margin + 7 * real j \<Longrightarrow>
   j + length textLines \<le> linesPerPage pageHeight margin \<Longrightarrow>
   length (fst (forEachLine pageHeight margin textLines (doc, y))) = length doc"
proof (induction textLines arbitrary: doc y j)
  case Nil
  then show ?case by simp
next
  case (Cons line textLines)
  from Cons.prems(3) have "j < linesPerPage pageHeight margin" by simp
  then have stay: "\<not> y > pageHeight - margin"
    using Cons.prems(2) by (simp add: linesPerPage_iff)
  have "length (fst (forEachLine pageHeight margin textLines (drawText line margin y doc, y + 7)))
      = length (drawText line margin y doc)"
  proof (rule Cons.IH [where j = "Suc j"])
    show "drawText line margin y doc \<noteq> []" by (rule drawText_not_Nil)
    show "y + 7 = margin + 7 * real (Suc j)" using Cons.prems(2) by simp
    show "Suc j + length textLines \<le> linesPerPage pageHeight margin" using Cons.prems(3) by simp
  qed
  then show ?case using stay Cons.prems(1) by (simp add: length_drawText)
qed

lemma forEachLine_exceeds:
  "doc \<noteq> [] \<Longrightarrow> y = margin + 7 * real j \<Longrightarrow> j \<le> linesPerPage pageHeight margin \<Longrightarrow>
   linesPerPage pageHeight margin < j + length textLines \<Longrightarrow>
   length doc < length (fst (forEachLine pageHeight margin textLines (doc, y)))"
proof (induction textLines arbitrary: doc y j)
  case Nil
  then show ?case by simp
next
  case (Cons line textLines)
  show ?case
  proof (cases "j < linesPerPage pageHeight margin")
    case True
    then have stay: "\<not> y > pageHeight - margin"
      using Cons.prems(2) by (simp add: linesPerPage_iff)
    have "length (drawText line margin y doc)
        < length (fst (forEachLine pageHeight margin textLines (drawText line margin y doc, y + 7)))"
    proof (rule Cons.IH [where j = "Suc j"])
      show "drawText line margin y doc \<noteq> []" by (rule drawText_not_Nil)
      show "y + 7 = margin + 7 * real (Suc j)" using Cons.prems(2) by simp
      show "Suc j \<le> linesPerPage pageHeight margin" using True by simp
      show "linesPerPage pageHeight margin < Suc j + length textLines"
        using Cons.prems(4) by simp
    qed
    then show ?thesis using stay Cons.prems(1) by (simp add: length_drawText)
  next
    case False
    then have break: "y > pageHeight - margin"
      using Cons.prems(2) by (simp add: linesPerPage_iff)
    have "length (drawText line margin margin (addPage doc))
        \<le> length (fst (forEachLine pageHeight margin textLines
             (drawText line margin margin (addPage doc), margin + 7)))"
      by (rule forEachLine_pages_mono) (rule drawText_not_Nil)
    then show ?thesis using break by (simp add: length_drawText addPage_def)
  qed
qed

lemma chunks_Nil: "chunks n [] = []"
  by (simp add: chunks.simps)

lemma chunks_step: "0 < n \<Longrightarrow> xs \<noteq> [] \<Longrightarrow> chunks n xs = take n xs # chunks n (drop n xs)"
  by (subst chunks.simps) simp

lemma drawText_last:
  "doc \<noteq> [] \<Longrightarrow>
     butlast (drawText s px py doc) = butlast doc
     \<and> last (drawText s px py doc) = last doc @ [\<lparr> content = s, atX = px, atY = py \<rparr>]"
  by (simp add: drawText_def)

lemma forEachLine_layout:
  assumes "doc \<noteq> []" and "j \<le> linesPerPage pageHeight margin"
    and "1 \<le> linesPerPage pageHeight margin"
  shows "fst (forEachLine pageHeight margin textLines (doc, margin + 7 * real j)) =
           butlast doc
           @ [last doc @ drawnFrom margin j (take (linesPerPage pageHeight margin - j) textLines)]
           @ map (drawnFrom margin 0)
               (chunks (linesPerPage pageHeight margin)
                  (drop (linesPerPage pageHeight margin - j) textLines))"
  using assms
proof (induction textLines arbitrary: doc j)
  case Nil
  then show ?case by (simp add: chunks_Nil)
next
  case (Cons line textLines)
  let ?cap = "linesPerPage pageHeight margin"
  show ?case
  proof (cases "j < ?cap")
    case True
    then have stay: "\<not> margin + 7 * real j > pageHeight - margin"
      by (simp add: linesPerPage_iff)
    let ?doc = "drawText line margin (margin + 7 * real j) doc"
    have y: "margin + 7 * real j + 7 = margin + 7 * real (Suc j)" by simp
    have ih: "fst (forEachLine pageHeight margin textLines (?doc, margin + 7 * real (Suc j))) =
           butlast ?doc
           @ [last ?doc @ drawnFrom margin (Suc j) (take (?cap - Suc j) textLines)]
           @ map (drawnFrom margin 0) (chunks ?cap (drop (?cap - Suc j) textLines))"
      using True Cons.prems(3) by (intro Cons.IH) (simp_all add: drawText_not_Nil)
    have cap: "?cap - j = Suc (?cap - Suc j)" using True by simp
    have step: "fst (forEachLine pageHeight margin (line # textLines) (doc, margin + 7 * real j))
        = fst (forEachLine pageHeight margin textLines (?doc, margin + 7 * real (Suc j)))"
      using stay by (simp only: forEachLine.simps if_False Let_def prod.case y)
    show ?thesis
      unfolding step ih cap using drawText_last [OF Cons.prems(1)] by simp
  next
    case False
    with Cons.prems(2) have j: "j = ?cap" by simp
    then have break: "margin + 7 * real j > pageHeight - margin"
      using linesPerPage_iff [of j pageHeight margin] by simp
    let ?doc = "drawText line margin margin (addPage doc)"
    have doc': "?doc = doc @ [[\<lparr> content = line, atX = margin, atY = margin \<rparr>]]"
      by (simp add: drawText_def addPage_def)
    have y: "margin + 7 = margin + 7 * real (Suc 0)" by simp
    have ih: "fst (forEachLine pageHeight margin textLines (?doc, margin + 7 * real (Suc 0))) =
           butlast ?doc
           @ [last ?doc @ drawnFrom margin (Suc 0) (take (?cap - Suc 0) textLines)]
           @ map (drawnFrom margin 0) (chunks ?cap (drop (?cap - Suc 0) textLines))"
      using Cons.prems(3) by (intro Cons.IH) (simp_all add: drawText_not_Nil)
    have step: "fst (forEachLine pageHeight margin (line # textLines) (doc, margin + 7 * real j))
        = fst (forEachLine pageHeight margin textLines (?doc, margin + 7 * real (Suc 0)))"
      using break by (simp only: forEachLine.simps if_True Let_def prod.case y)
    obtain c where c: "?cap = Suc c" using Cons.prems(3) by (cases ?cap) simp_all
    have ch: "chunks ?cap (line # textLines)
        = (line # take c textLines) # chunks ?cap (drop c textLines)"
      using c by (subst chunks_step) simp_all
    show ?thesis
      unfolding step ih using Cons.prems(1) by (simp add: j doc' ch) (simp add: c)
  qed
qed

lemma forEachLine_no_room:
  "pageHeight - margin < margin \<Longrightarrow> margin \<le> y \<Longrightarrow>
   fst (forEachLine pageHeight margin textLines (doc, y)) =
     doc @ map (\<lambda>line. [\<lparr> content = line, atX = margin, atY = margin \<rparr>]) textLines"
proof (induction textLines arbitrary: doc y)
  case Nil
  then show ?case by simp
next
  case (Cons line textLines)
  then have break: "y > pageHeight - margin" by simp
  have "fst (forEachLine pageHeight margin textLines
          (drawText line margin margin (addPage doc), margin + 7)) =
        drawText line margin margin (addPage doc)
        @ map (\<lambda>line. [\<lparr> content = line, atX = margin, atY = margin \<rparr>]) textLines"
    using Cons.prems(1) by (intro Cons.IH) simp_all
  then show ?case using break by (simp add: drawText_def addPage_def)
qed

lemma linesPerPage_0: "linesPerPage pageHeight margin = 0 \<longleftrightarrow> pageHeight - margin < margin"
  by (simp add: linesPerPage_def)

lemma handleExportPdf_Some:
  "generatedSections st \<noteq> None \<Longrightarrow>
   handleExportPdf upperOf pageHeight pageWidth splitTextToSize st =
     Some (fst (forEachLine pageHeight 15
       (splitTextToSize (getFullScriptText upperOf False st) (pageWidth - 30)) ([[]], 15)))"
  by (simp add: handleExportPdf_def Let_def)

lemma coffee_lines: "length (noWrap (getFullScriptText unchanged False coffeeGenerated) w) = 21"
  by (simp add: noWrap_def getFullScriptText_def coffeeGenerated_def coffeeDocument_def
      title_eval)

lemma capacity_A4: "linesPerPage 297 15 = 39"
  by (simp add: linesPerPage_def)

lemma capacity_small: "linesPerPage 50 15 = 3"
  by (simp add: linesPerPage_def)

text \<open>
  C6. A line whose cursor is beyond the page height less the margin goes to a new page, at
  the top margin; any other line goes to the current page at the cursor; the cursor then
  moves down by 7. A page takes \<^const>\<open>linesPerPage\<close> lines, the cursor positions from the
  margin on, 7 apart, that are not beyond the page height less the margin. The saved
  document is what this walk draws from one empty page and the cursor at the top margin
  over the wrapped lines of the full text: the lines in their order, so many to a page as a
  page takes, each at the margin and at its cursor position (where a page takes no line at
  all: one empty page, then a page for each line). So it has exactly one page when the lines
  are at most as many as a page takes, and more than one page when they are more.
\<close>

theorem handleExportPdf_pages:
  fixes upperOf pageHeight pageWidth splitTextToSize st
  defines "textLines \<equiv> splitTextToSize (getFullScriptText upperOf False st) (pageWidth - 30)"
    and "capacity \<equiv> linesPerPage pageHeight 15"
    and "saved \<equiv> handleExportPdf upperOf pageHeight pageWidth splitTextToSize st"
  shows
  "(y > pageHeight - margin \<longrightarrow>
      forEachLine pageHeight margin (line # rest) (doc, y) =
        forEachLine pageHeight margin rest (drawText line margin margin (addPage doc), margin + 7))
   \<and> (\<not> y > pageHeight - margin \<longrightarrow>
      forEachLine pageHeight margin (line # rest) (doc, y) =
        forEachLine pageHeight margin rest (drawText line margin y doc, y + 7))
   \<and> (k < linesPerPage pageHeight 15 \<longleftrightarrow> 15 + 7 * real k \<le> pageHeight - 15)
   \<and> (generatedSections st = None \<longrightarrow> saved = None)
   \<and> (generatedSections st \<noteq> None \<longrightarrow>
        saved = Some (fst (forEachLine pageHeight 15 textLines ([[]], 15)))
        \<and> (1 \<le> capacity \<longrightarrow>
             saved = Some (if textLines = [] then [[]]
                           else map (drawnFrom 15 0) (chunks capacity textLines)))
        \<and> (capacity = 0 \<longrightarrow>
             saved = Some ([] # map (\<lambda>l. [\<lparr> content = l, atX = 15, atY = 15 \<rparr>]) textLines))
        \<and> (length textLines \<le> capacity \<longrightarrow> map_option length saved = Some 1)
        \<and> (capacity < length textLines \<longrightarrow>
             (\<exists>n. map_option length saved = Some n \<and> 1 < n)))"
proof -
  have a: "y > pageHeight - margin \<longrightarrow>
      forEachLine pageHeight margin (line # rest) (doc, y) =
        forEachLine pageHeight margin rest (drawText line margin margin (addPage doc), margin + 7)"
    by simp
  have b: "\<not> y > pageHeight - margin \<longrightarrow>
      forEachLine pageHeight margin (line # rest) (doc, y) =
        forEachLine pageHeight margin rest (drawText line margin y doc, y + 7)"
    by simp
  have c: "k < linesPerPage pageHeight 15 \<longleftrightarrow> 15 + 7 * real k \<le> pageHeight - 15"
    by (rule linesPerPage_iff)
  have n: "generatedSections st = None \<longrightarrow> saved = None"
    by (simp add: saved_def handleExportPdf_def)
  have d: "generatedSections st \<noteq> None \<longrightarrow>
        saved = Some (fst (forEachLine pageHeight 15 textLines ([[]], 15)))
        \<and> (1 \<le> capacity \<longrightarrow>
             saved = Some (if textLines = [] then [[]]
                           else map (drawnFrom 15 0) (chunks capacity textLines)))
        \<and> (capacity = 0 \<longrightarrow>
             saved = Some ([] # map (\<lambda>l. [\<lparr> content = l, atX = 15, atY = 15 \<rparr>]) textLines))
        \<and> (length textLines \<le> capacity \<longrightarrow> map_option length saved = Some 1)
        \<and> (capacity < length textLines \<longrightarrow>
             (\<exists>n. map_option length saved = Some n \<and> 1 < n))"
  proof
    assume g: "generatedSections st \<noteq> None"
    let ?pages = "fst (forEachLine pageHeight 15 textLines ([[]], 15))"
    have e: "saved = Some ?pages"
      unfolding saved_def textLines_def by (rule handleExportPdf_Some [OF g])
    have lay: "1 \<le> capacity \<longrightarrow>
        ?pages = (if textLines = [] then [[]]
                  else map (drawnFrom 15 0) (chunks capacity textLines))"
    proof
      assume cap: "1 \<le> capacity"
      have "fst (forEachLine pageHeight 15 textLines ([[]], 15 + 7 * real 0)) =
           butlast [[]]
           @ [last [[]] @ drawnFrom 15 0 (take (linesPerPage pageHeight 15 - 0) textLines)]
           @ map (drawnFrom 15 0)
               (chunks (linesPerPage pageHeight 15)
                  (drop (linesPerPage pageHeight 15 - 0) textLines))"
        using cap unfolding capacity_def by (intro forEachLine_layout) simp_all
      then have l: "?pages = drawnFrom 15 0 (take capacity textLines)
           # map (drawnFrom 15 0) (chunks capacity (drop capacity textLines))"
        by (simp add: capacity_def)
      show "?pages = (if textLines = [] then [[]]
                  else map (drawnFrom 15 0) (chunks capacity textLines))"
      proof (cases "textLines = []")
        case True
        with l show ?thesis by (simp add: chunks_Nil)
      next
        case False
        with cap have "chunks capacity textLines
            = take capacity textLines # chunks capacity (drop capacity textLines)"
          by (intro chunks_step) simp_all
        with l False show ?thesis by simp
      qed
    qed
    have none: "capacity = 0 \<longrightarrow>
        ?pages = [] # map (\<lambda>l. [\<lparr> content = l, atX = 15, atY = 15 \<rparr>]) textLines"
    proof
      assume "capacity = 0"
      then have "pageHeight - 15 < 15" by (simp add: capacity_def linesPerPage_0)
      then have "fst (forEachLine pageHeight 15 textLines ([[]], 15)) =
          [[]] @ map (\<lambda>line. [\<lparr> content = line, atX = 15, atY = 15 \<rparr>]) textLines"
        by (intro forEachLine_no_room) simp_all
      then show "?pages = [] # map (\<lambda>l. [\<lparr> content = l, atX = 15, atY = 15 \<rparr>]) textLines"
        by simp
    qed
    have one: "length textLines \<le> capacity \<longrightarrow> length ?pages = 1"
    proof
      assume "length textLines \<le> capacity"
      then have "length ?pages = length [[] :: page]"
        unfolding capacity_def by (intro forEachLine_fits [where j = 0]) simp_all
      then show "length ?pages = 1" by simp
    qed
    have more: "capacity < length textLines \<longrightarrow> 1 < length ?pages"
    proof
      assume "capacity < length textLines"
      then have "length [[] :: page] < length ?pages"
        unfolding capacity_def by (intro forEachLine_exceeds [where j = 0]) simp_all
      then show "1 < length ?pages" by simp
    qed
    from e lay none one more
    show "saved = Some (fst (forEachLine pageHeight 15 textLines ([[]], 15)))
        \<and> (1 \<le> capacity \<longrightarrow>
             saved = Some (if textLines = [] then [[]]
                           else map (drawnFrom 15 0) (chunks capacity textLines)))
        \<and> (capacity = 0 \<longrightarrow>
             saved = Some ([] # map (\<lambda>l. [\<lparr> content = l, atX = 15, atY = 15 \<rparr>]) textLines))
        \<and> (length textLines \<le> capacity \<longrightarrow> map_option length saved = Some 1)
        \<and> (capacity < length textLines \<longrightarrow>
             (\<exists>n. map_option length saved = Some n \<and> 1 < n))"
      by simp
  qed
  from a b c n d show ?thesis by blast
qed

lemma coffee_wrapped:
  "noWrap (getFullScriptText unchanged False coffeeGenerated) (210 - 30) =
     [S ''Hook'', S ''Try this!'', [], S ''Introduction'', S ''...'', [],
      S ''Main Content'', S ''...'', [], S ''Call To Action'', S ''...'', [],
      S ''Visual Ideas'', S ''Shot Suggestions:'', S ''- wide shot'', [],
      S ''B-Roll:'', S ''- clouds'', [], S ''Hashtags'', S ''#coffee'']"
  by (simp add: noWrap_def getFullScriptText_def coffeeGenerated_def coffeeDocument_def
      title_eval)

theorem handleExportPdf_pages_witness:
  "generatedSections coffeeGenerated \<noteq> None
   \<and> length (noWrap (getFullScriptText unchanged False coffeeGenerated) (210 - 30)) = 21
   \<and> linesPerPage 297 15 = 39 \<and> linesPerPage 50 15 = 3
   \<and> map_option length (handleExportPdf unchanged 297 210 noWrap coffeeGenerated) = Some 1
   \<and> map_option (map (map content)) (handleExportPdf unchanged 50 210 noWrap coffeeGenerated) =
       Some [[S ''Hook'', S ''Try this!'', []], [S ''Introduction'', S ''...'', []],
             [S ''Main Content'', S ''...'', []], [S ''Call To Action'', S ''...'', []],
             [S ''Visual Ideas'', S ''Shot Suggestions:'', S ''- wide shot''],
             [[], S ''B-Roll:'', S ''- clouds''], [[], S ''Hashtags'', S ''#coffee'']]
   \<and> map_option (map (map atY)) (handleExportPdf unchanged 50 210 noWrap coffeeGenerated) =
       Some (replicate 7 [15, 22, 29])
   \<and> map_option (map (map atX)) (handleExportPdf unchanged 50 210 noWrap coffeeGenerated) =
       Some (replicate 7 [15, 15, 15])"
proof -
  have g: "generatedSections coffeeGenerated \<noteq> None" by (simp add: coffeeGenerated_def)
  have l: "length (noWrap (getFullScriptText unchanged False coffeeGenerated) (210 - 30)) = 21"
    by (rule coffee_lines)
  note a4 = handleExportPdf_pages [where st = coffeeGenerated and pageHeight = 297
      and pageWidth = 210 and splitTextToSize = noWrap and upperOf = unchanged,
      THEN conjunct2, THEN conjunct2, THEN conjunct2, THEN conjunct2]
  note small = handleExportPdf_pages [where st = coffeeGenerated and pageHeight = 50
      and pageWidth = 210 and splitTextToSize = noWrap and upperOf = unchanged,
      THEN conjunct2, THEN conjunct2, THEN conjunct2, THEN conjunct2]
  have fits: "length (noWrap (getFullScriptText unchanged False coffeeGenerated) (210 - 30))
      \<le> linesPerPage 297 15"
    unfolding l capacity_A4 by simp
  have one: "map_option length (handleExportPdf unchanged 297 210 noWrap coffeeGenerated) = Some 1"
    using a4 g fits by blast
  have pages: "handleExportPdf unchanged 50 210 noWrap coffeeGenerated =
      Some (map (drawnFrom 15 0)
        (chunks 3 (noWrap (getFullScriptText unchanged False coffeeGenerated) (210 - 30))))"
  proof -
    have room: "1 \<le> linesPerPage 50 15" unfolding capacity_small by simp
    have ne: "noWrap (getFullScriptText unchanged False coffeeGenerated) (210 - 30) \<noteq> []"
      unfolding coffee_wrapped by simp
    from small g room
    have "handleExportPdf unchanged 50 210 noWrap coffeeGenerated =
      Some (if noWrap (getFullScriptText unchanged False coffeeGenerated) (210 - 30) = [] then [[]]
            else map (drawnFrom 15 0) (chunks (linesPerPage 50 15)
              (noWrap (getFullScriptText unchanged False coffeeGenerated) (210 - 30))))"
      by blast
    then show ?thesis unfolding capacity_small using ne by (simp only: if_False)
  qed
  have seven: "map_option (map (map content)) (handleExportPdf unchanged 50 210 noWrap coffeeGenerated) =
       Some [[S ''Hook'', S ''Try this!'', []], [S ''Introduction'', S ''...'', []],
             [S ''Main Content'', S ''...'', []], [S ''Call To Action'', S ''...'', []],
             [S ''Visual Ideas'', S ''Shot Suggestions:'', S ''- wide shot''],
             [[], S ''B-Roll:'', S ''- clouds''], [[], S ''Hashtags'', S ''#coffee'']]"
    unfolding pages coffee_wrapped by (simp add: chunks.simps)
  have ys: "map_option (map (map atY)) (handleExportPdf unchanged 50 210 noWrap coffeeGenerated) =
       Some (replicate 7 [15, 22, 29])"
    unfolding pages coffee_wrapped by (simp add: chunks.simps numeral_eq_Suc)
  have xs: "map_option (map (map atX)) (handleExportPdf unchanged 50 210 noWrap coffeeGenerated) =
       Some (replicate 7 [15, 15, 15])"
    unfolding pages coffee_wrapped by (simp add: chunks.simps numeral_eq_Suc)
  from g l capacity_A4 capacity_small one seven ys xs show ?thesis by blast
qed

end
